theory Spec2Isabelle
  imports Main "HOL-Library.Word" "HOL-Library.Char_ord" "HOL-Library.List_Lexorder"
begin

section \<open>StorageMaterializedView: data model\<close>

text \<open>
  The development embeds \<^verbatim>\<open>src/Storages/StorageMaterializedView.cpp\<close>. Exceptions are
  values of \<open>error + 'a\<close> (\<open>Inl\<close> the exception); member variables of the storage object
  are fields of a record that every member function takes and returns; the collaborators
  the file only calls (catalog, DDL interpreters, storage factory, analyzer, the tables
  themselves) are a record of operations over an arbitrary world \<open>'w\<close>, and the calls
  with an effect are logged in a list of events, oldest first.
\<close>

subsection \<open>Error codes\<close>

text \<open>
  The six codes the file declares in \<^verbatim>\<open>namespace ErrorCodes\<close>; \<open>OTHER_ERROR\<close> for any
  other code a collaborator may throw with; \<open>ASSERTION_FAILED\<close> for the abort of a failed
  \<^verbatim>\<open>chassert\<close> in a build that aborts on logical errors (elsewhere \<^verbatim>\<open>chassert\<close> does nothing).
\<close>

datatype error =
    BAD_ARGUMENTS
  | NOT_IMPLEMENTED
  | INCORRECT_QUERY
  | TOO_MANY_MATERIALIZED_VIEWS
  | LOGICAL_ERROR
  | UNKNOWN_STORAGE
  | OTHER_ERROR nat
  | ASSERTION_FAILED

subsection \<open>Storage identifiers\<close>

text \<open>Modelled from the spec: the type \<^verbatim>\<open>UUID\<close>, \<^verbatim>\<open>UUIDHelpers::Nil\<close> and
  \<^verbatim>\<open>toString(uuid)\<close>, absent from the sources. A UUID is kept in its textual form, so
  that \<^verbatim>\<open>toString\<close> is the identity; the nil UUID is the all-zero one.\<close>

type_synonym UUID = string

definition Nil_UUID :: UUID where
  "Nil_UUID = ''00000000-0000-0000-0000-000000000000''"

definition toString :: "UUID \<Rightarrow> string" where
  "toString u = u"

record StorageID =
  database_name :: string
  table_name :: string
  uuid :: UUID

text \<open>Modelled from the spec: the constructor \<^verbatim>\<open>StorageID(database, table)\<close>, absent from
  the sources: it leaves the UUID nil.\<close>

definition mkStorageID :: "string \<Rightarrow> string \<Rightarrow> StorageID" where
  "mkStorageID db tbl = \<lparr>database_name = db, table_name = tbl, uuid = Nil_UUID\<rparr>"

text \<open>Modelled from the spec: \<^verbatim>\<open>StorageID::createEmpty()\<close>, absent from the sources: the
  value of a member identifier never assigned.\<close>

definition createEmpty :: StorageID where
  "createEmpty = \<lparr>database_name = [], table_name = [], uuid = Nil_UUID\<rparr>"

text \<open>Modelled from the spec: \<^verbatim>\<open>StorageID::hasUUID()\<close>, absent from the sources: the
  UUID is not the nil one.\<close>

definition hasUUID :: "StorageID \<Rightarrow> bool" where
  "hasUUID sid = (uuid sid \<noteq> Nil_UUID)"

text \<open>Modelled from the spec: \<^verbatim>\<open>StorageID::empty()\<close> (and \<^verbatim>\<open>operator bool\<close>, its
  negation), absent from the sources: an identifier is empty when it has neither a table
  name nor a UUID.\<close>

definition storage_id_empty :: "StorageID \<Rightarrow> bool" where
  "storage_id_empty sid = (table_name sid = [] \<and> \<not> hasUUID sid)"

text \<open>Modelled from the spec: \<^verbatim>\<open>StorageID::getTableName()\<close>, absent from the sources.\<close>

definition getTableName :: "StorageID \<Rightarrow> string" where
  "getTableName sid = table_name sid"

text \<open>Modelled from the spec: \<^verbatim>\<open>StorageID::getQualifiedName()\<close> and \<^verbatim>\<open>operator<\<close> of
  \<^verbatim>\<open>QualifiedTableName\<close>, absent from the sources: the pair (database, table), and the
  lexicographic order of such pairs, strings compared by their bytes.\<close>

definition getQualifiedName :: "StorageID \<Rightarrow> string \<times> string" where
  "getQualifiedName sid = (database_name sid, table_name sid)"

definition qualified_name_less :: "string \<times> string \<Rightarrow> string \<times> string \<Rightarrow> bool" where
  "qualified_name_less a b = (fst a < fst b \<or> (fst a = fst b \<and> snd a < snd b))"

subsection \<open>generateInnerTableName\<close>

definition generateInnerTableName :: "StorageID \<Rightarrow> bool \<Rightarrow> string" where
  "generateInnerTableName view_id scratch =
     (let res = ''.inner'';
          res = (if scratch then res @ ''_scratch'' else res)
      in if hasUUID view_id then res @ ''_id.'' @ toString (uuid view_id)
         else res @ ''.'' @ getTableName view_id)"

subsection \<open>Blocks (headers) and removeNonCommonColumns\<close>

text \<open>
  A \<^verbatim>\<open>Block\<close> is a sequence of columns; of a column the file reads the name, and
  \<^verbatim>\<open>blocksHaveEqualStructure\<close> compares names and types position by position.
\<close>

record ColumnWithTypeAndName =
  col_name :: string
  col_type :: string

type_synonym Block = "ColumnWithTypeAndName list"

text \<open>Modelled from the spec: \<^verbatim>\<open>Block::has(name)\<close>, absent from the sources: some
  column of the block has this name.\<close>

definition has :: "Block \<Rightarrow> string \<Rightarrow> bool" where
  "has b n = (n \<in> set (map col_name b))"

text \<open>Modelled from the spec: \<^verbatim>\<open>Block::getPositionByName(name)\<close>, absent from the
  sources: the position of the first column with this name; it throws when there is
  none, which is \<open>None\<close> here.\<close>

fun getPositionByName :: "Block \<Rightarrow> string \<Rightarrow> nat option" where
  "getPositionByName [] n = None"
| "getPositionByName (c # cs) n =
     (if col_name c = n then Some 0
      else (case getPositionByName cs n of None \<Rightarrow> None | Some i \<Rightarrow> Some (Suc i)))"

text \<open>Modelled from the spec: \<^verbatim>\<open>Block::erase(const std::set<size_t> &)\<close>, absent from
  the sources: the columns at the given positions are removed, the others keep their
  order. The set of positions is the list of its members.\<close>

definition erase :: "nat list \<Rightarrow> Block \<Rightarrow> Block" where
  "erase positions b = map snd (filter (\<lambda>p. fst p \<notin> set positions) (zip [0..<length b] b))"

text \<open>Modelled from the spec: \<^verbatim>\<open>Block::getNames()\<close>, absent from the sources: the
  column names in order.\<close>

definition getNames :: "Block \<Rightarrow> string list" where
  "getNames b = map col_name b"

text \<open>Modelled from the spec: \<^verbatim>\<open>blocksHaveEqualStructure\<close>, absent from the sources:
  the same number of columns, with the same names and types at each position.\<close>

definition blocksHaveEqualStructure :: "Block \<Rightarrow> Block \<Rightarrow> bool" where
  "blocksHaveEqualStructure a b = (a = b)"

text \<open>
  The loop of \<^verbatim>\<open>removeNonCommonColumns\<close> collects, for every column of the target header
  whose name the source header lacks, the position \<^verbatim>\<open>getPositionByName\<close> gives for that
  name; the positions collected are erased after the loop. The lookup cannot throw: the
  name is a name of the block searched.
\<close>

fun target_only_positions :: "Block \<Rightarrow> Block \<Rightarrow> Block \<Rightarrow> nat list" where
  "target_only_positions src_header target_header [] = []"
| "target_only_positions src_header target_header (column # rest) =
     (if \<not> has src_header (col_name column)
      then (case getPositionByName target_header (col_name column) of
              Some i \<Rightarrow> List.insert i (target_only_positions src_header target_header rest)
            | None \<Rightarrow> target_only_positions src_header target_header rest)
      else target_only_positions src_header target_header rest)"

definition removeNonCommonColumns :: "Block \<Rightarrow> Block \<Rightarrow> Block" where
  "removeNonCommonColumns src_header target_header =
     erase (target_only_positions src_header target_header target_header) target_header"

subsection \<open>Syntax trees\<close>

text \<open>
  A syntax tree the file only passes on (the SELECT, the column list, a PARTITION BY
  expression) is a string. Of \<^verbatim>\<open>ASTStorage\<close> the constructor reads the engine's name and
  \<^verbatim>\<open>partition_by\<close>; of \<^verbatim>\<open>ASTRefreshStrategy\<close> the flag \<^verbatim>\<open>append\<close>.
\<close>

type_synonym AST = string

record ASTStorage =
  engine :: "string option"
  partition_by :: "AST option"

record ASTRefreshStrategy =
  strategy_append :: bool
  strategy_schedule :: AST

text \<open>
  \<^verbatim>\<open>ASTCreateQuery\<close>, with the fields the constructor reads or writes. The member
  functions \<^verbatim>\<open>needsInnerTargetTable()\<close>, \<^verbatim>\<open>needsScratchTable()\<close> and \<^verbatim>\<open>needsInnerTables()\<close>
  are declared outside this file; their results are taken as given with the query.
\<close>

record ASTCreateQuery =
  cq_database :: string
  cq_table :: string
  cq_uuid :: UUID
  select :: "AST option"
  storage :: "ASTStorage option"
  columns_list :: AST
  refresh_strategy :: "ASTRefreshStrategy option"
  to_table_id :: StorageID
  to_inner_uuid :: "UUID list"
  is_create_empty :: bool
  is_dictionary :: bool
  is_ordinary_view :: bool
  is_materialized_view :: bool
  is_live_view :: bool
  is_window_view :: bool
  needsInnerTargetTable :: bool
  needsScratchTable :: bool
  needsInnerTables :: nat

text \<open>\<^verbatim>\<open>std::make_shared<ASTCreateQuery>()\<close>: a create query with nothing set.\<close>

definition new_ASTCreateQuery :: ASTCreateQuery where
  "new_ASTCreateQuery =
     \<lparr>cq_database = [], cq_table = [], cq_uuid = Nil_UUID, select = None, storage = None,
      columns_list = [], refresh_strategy = None, to_table_id = createEmpty,
      to_inner_uuid = [], is_create_empty = False, is_dictionary = False,
      is_ordinary_view = False, is_materialized_view = False, is_live_view = False,
      is_window_view = False, needsInnerTargetTable = False, needsScratchTable = False,
      needsInnerTables = 0\<rparr>"

record ASTInsertQuery =
  insert_select :: AST
  insert_table :: string
  insert_database :: string
  insert_table_id :: StorageID
  insert_columns :: "string list"

record SelectQueryDescription =
  select_table_id :: StorageID
  select_query :: AST

text \<open>\<^verbatim>\<open>StorageFactory::StorageFeatures\<close>: the two features the constructor reads.\<close>

record StorageFeatures =
  supports_moving_data_between_tables :: bool
  supports_replication :: bool

datatype DropKind = Drop | Detach | Truncate

text \<open>
  \<^verbatim>\<open>AlterCommand\<close>: its type, what \<^verbatim>\<open>isCommentAlter()\<close> (declared outside this file)
  answers for it, and the refresh strategy a MODIFY REFRESH carries.
\<close>

datatype AlterType =
    UNKNOWN
  | ADD_COLUMN
  | DROP_COLUMN
  | MODIFY_COLUMN
  | COMMENT_COLUMN
  | COMMENT_TABLE
  | MODIFY_ORDER_BY
  | MODIFY_SAMPLE_BY
  | ADD_INDEX
  | DROP_INDEX
  | ADD_CONSTRAINT
  | DROP_CONSTRAINT
  | ADD_PROJECTION
  | DROP_PROJECTION
  | MODIFY_TTL
  | MODIFY_SETTING
  | RESET_SETTING
  | MODIFY_QUERY
  | MODIFY_REFRESH
  | RENAME_COLUMN
  | REMOVE_TTL
  | MODIFY_DATABASE_SETTING

record AlterCommand =
  command_type :: AlterType
  isCommentAlter :: bool
  refresh :: ASTRefreshStrategy

subsection \<open>Collaborators and events\<close>

text \<open>
  What the file calls and does not define. A call that can throw returns \<open>error + 'a\<close>
  or, when it returns nothing, \<open>error option\<close>; a call with an effect also returns the
  world after it, changed or not, thrown or not. A table handle (\<^verbatim>\<open>StoragePtr\<close>) is the
  storage identifier the table answers to \<^verbatim>\<open>getStorageID()\<close>. Contexts, settings, query
  identifiers and lock timeouts are part of the world. \<open>abort_on_logical_error\<close> says
  whether the build aborts on a failed \<^verbatim>\<open>chassert\<close>. \<open>unlock\<close> is the release of an
  exclusive lock when its holder goes out of scope.
\<close>

record 'w collaborators =
  getSelectQueryFromASTForMatView :: "AST \<Rightarrow> bool \<Rightarrow> 'w \<Rightarrow> error + SelectQueryDescription"
  getDependentViews :: "StorageID \<Rightarrow> 'w \<Rightarrow> StorageID list"
  max_materialized_views_count_for_table :: "'w \<Rightarrow> nat"
  getCreateTableQuery :: "string \<Rightarrow> string \<Rightarrow> 'w \<Rightarrow> error + ASTCreateQuery"
  tryGetFeatures :: "string \<Rightarrow> 'w \<Rightarrow> StorageFeatures option"
  abort_on_logical_error :: bool
  createQueryExecute :: "ASTCreateQuery \<Rightarrow> 'w \<Rightarrow> error option \<times> 'w"
  getTable :: "StorageID \<Rightarrow> 'w \<Rightarrow> error + StorageID"
  tryGetTable :: "StorageID \<Rightarrow> 'w \<Rightarrow> StorageID option"
  executeDropQuery :: "DropKind \<Rightarrow> StorageID \<Rightarrow> bool \<Rightarrow> bool \<Rightarrow> bool \<Rightarrow> 'w \<Rightarrow> error option \<times> 'w"
  lockExclusively :: "StorageID \<Rightarrow> 'w \<Rightarrow> error option \<times> 'w"
  unlock :: "StorageID \<Rightarrow> 'w \<Rightarrow> 'w"
  storage_truncate :: "StorageID \<Rightarrow> 'w \<Rightarrow> error option \<times> 'w"
  transferAllDataFrom :: "StorageID \<Rightarrow> StorageID \<Rightarrow> bool \<Rightarrow> bool \<Rightarrow> 'w \<Rightarrow> error option \<times> 'w"
  analyzer_getSampleBlock :: "AST \<Rightarrow> 'w \<Rightarrow> error + Block"
  interpreter_getSampleBlock :: "AST \<Rightarrow> 'w \<Rightarrow> error + Block"
  storage_totalRows :: "StorageID \<Rightarrow> 'w \<Rightarrow> 64 word option"
  storage_totalBytes :: "StorageID \<Rightarrow> 'w \<Rightarrow> 64 word option"
  storage_totalBytesUncompressed :: "StorageID \<Rightarrow> 'w \<Rightarrow> 64 word option"

text \<open>
  The calls with an effect, as issued (logged whether the call then throws or not).
  \<open>EvDrop\<close> carries the arguments of \<^verbatim>\<open>InterpreterDropQuery::executeDropQuery\<close>: kind,
  table, \<^verbatim>\<open>sync\<close>, \<^verbatim>\<open>ignore_sync_setting\<close>, \<^verbatim>\<open>may_lock_ddl_guard\<close>. \<open>EvGetSampleBlock\<close> is
  the computation of the SELECT's sample block, by the analyzer when the flag is set.
\<close>

datatype event =
    EvCreate ASTCreateQuery
  | EvDrop DropKind StorageID bool bool bool
  | EvLogException error string
  | EvLockExclusively StorageID
  | EvUnlock StorageID
  | EvTruncate StorageID
  | EvTransferAllDataFrom StorageID StorageID bool bool
  | EvGetSampleBlock bool AST

text \<open>The table a create query names, after \<^verbatim>\<open>execute_inner_create\<close> has set its
  database, table and UUID.\<close>

definition created_id :: "ASTCreateQuery \<Rightarrow> StorageID" where
  "created_id q = \<lparr>database_name = cq_database q, table_name = cq_table q, uuid = cq_uuid q\<rparr>"

subsection \<open>The storage object\<close>

text \<open>
  \<^verbatim>\<open>RefreshTask::create(this, context, strategy)\<close>: the task keeps the view's identifier
  and the strategy.
\<close>

record RefreshTask =
  task_view :: StorageID
  task_strategy :: ASTRefreshStrategy

record StorageMaterializedView =
  storage_id :: StorageID
  metadata_columns :: AST
  metadata_select :: SelectQueryDescription
  metadata_comment :: string
  metadata_refresh :: "ASTRefreshStrategy option"
  has_inner_target_table :: bool
  has_scratch_table :: bool
  target_table_id :: StorageID
  scratch_table_id :: StorageID
  scratch_table_is_known_to_be_empty :: bool
  refresher :: "RefreshTask option"
  refresh_on_start :: bool

section \<open>The constructor\<close>

subsection \<open>Validation and binding of the inner identifiers\<close>

text \<open>
  The constructor up to the TO INNER UUID check: the SELECT must be there, an inner target
  needs a storage clause, the SELECT description is computed (and may throw), the source
  table must not have too many dependent views, the view must not point to itself, and
  the two inner identifiers are bound. The members not assigned here have the values of
  a fresh object (the header with the member initialisers is absent from the sources):
  no refresher, \<^verbatim>\<open>refresh_on_start\<close> and the scratch-empty flag false, an empty scratch
  identifier. \<^verbatim>\<open>to_inner_uuid[0]\<close> and \<^verbatim>\<open>to_inner_uuid.back()\<close> are read only when the
  list is not empty.
\<close>

definition bind_inner_table_ids ::
  "'w collaborators \<Rightarrow> 'w \<Rightarrow> StorageID \<Rightarrow> ASTCreateQuery \<Rightarrow> AST \<Rightarrow> string
     \<Rightarrow> error + StorageMaterializedView" where
  "bind_inner_table_ids env w table_id query columns comment =
     (case select query of
        None \<Rightarrow> Inl INCORRECT_QUERY
      | Some query_select \<Rightarrow>
          if needsInnerTargetTable query \<and> storage query = None then Inl INCORRECT_QUERY
          else
            (case getSelectQueryFromASTForMatView env query_select
                    (refresh_strategy query \<noteq> None) w of
               Inl e \<Rightarrow> Inl e
             | Inr select_description \<Rightarrow>
                 if \<not> storage_id_empty (select_table_id select_description)
                    \<and> max_materialized_views_count_for_table env w \<noteq> 0
                    \<and> length (getDependentViews env (select_table_id select_description) w)
                        \<ge> max_materialized_views_count_for_table env w
                 then Inl TOO_MANY_MATERIALIZED_VIEWS
                 else
                   let point_to_itself_by_uuid = (uuid table_id \<in> set (to_inner_uuid query));
                       point_to_itself_by_name =
                         (database_name (to_table_id query) = database_name table_id
                          \<and> table_name (to_table_id query) = table_name table_id)
                   in
                     if point_to_itself_by_uuid \<or> point_to_itself_by_name
                     then Inl BAD_ARGUMENTS
                     else
                       let mv_storage_id = table_id;
                           target =
                             (if needsInnerTargetTable query
                              then mkStorageID (database_name mv_storage_id)
                                     (generateInnerTableName mv_storage_id False)
                              else to_table_id query);
                           scratch =
                             (if needsScratchTable query
                              then mkStorageID (database_name mv_storage_id)
                                     (generateInnerTableName mv_storage_id True)
                              else createEmpty);
                           view =
                             \<lparr>storage_id = table_id,
                              metadata_columns = columns,
                              metadata_select = select_description,
                              metadata_comment = comment,
                              metadata_refresh = refresh_strategy query,
                              has_inner_target_table = needsInnerTargetTable query,
                              has_scratch_table = needsScratchTable query,
                              target_table_id = target,
                              scratch_table_id = scratch,
                              scratch_table_is_known_to_be_empty = False,
                              refresher = None,
                              refresh_on_start = False\<rparr>
                       in
                         if to_inner_uuid query \<noteq> [] then
                           if length (to_inner_uuid query) \<noteq> needsInnerTables query
                           then Inl INCORRECT_QUERY
                           else Inr (view
                             \<lparr>target_table_id :=
                                (if needsInnerTargetTable query
                                 then target\<lparr>uuid := hd (to_inner_uuid query)\<rparr> else target),
                              scratch_table_id :=
                                (if needsScratchTable query
                                 then scratch\<lparr>uuid := last (to_inner_uuid query)\<rparr>
                                 else scratch)\<rparr>)
                         else Inr view))"

subsection \<open>The create queries of the inner tables\<close>

text \<open>
  Only when the view is not attached. The target's create query takes the view's columns
  and storage clause. The scratch's create query is a clone of it, or the create query
  of the existing target as the catalog gives it (which may throw), and is checked:
  no dictionary or view, an engine, a registered one, that can move data between
  tables, no PARTITION BY, no replication. The result is the two optional create
  queries and the scratch-empty flag.
\<close>

definition check_scratch_create_query ::
  "'w collaborators \<Rightarrow> 'w \<Rightarrow> ASTCreateQuery \<Rightarrow> error option" where
  "check_scratch_create_query env w scratch_create_query =
     (if is_dictionary scratch_create_query \<or> is_ordinary_view scratch_create_query
         \<or> is_materialized_view scratch_create_query \<or> is_live_view scratch_create_query
         \<or> is_window_view scratch_create_query
      then Some BAD_ARGUMENTS
      else
        (case storage scratch_create_query of
           None \<Rightarrow> Some LOGICAL_ERROR
         | Some st \<Rightarrow>
             (case engine st of
                None \<Rightarrow> Some LOGICAL_ERROR
              | Some engine_name \<Rightarrow>
                  (case tryGetFeatures env engine_name w of
                     None \<Rightarrow> Some UNKNOWN_STORAGE
                   | Some features \<Rightarrow>
                       if \<not> supports_moving_data_between_tables features
                       then Some NOT_IMPLEMENTED
                       else if partition_by st \<noteq> None then Some NOT_IMPLEMENTED
                       else if supports_replication features then Some NOT_IMPLEMENTED
                       else None))))"

definition make_inner_target_create_query ::
  "StorageMaterializedView \<Rightarrow> ASTCreateQuery \<Rightarrow> ASTCreateQuery option" where
  "make_inner_target_create_query view query =
     (if has_inner_target_table view
      then Some (new_ASTCreateQuery
             \<lparr>columns_list := columns_list query, storage := storage query\<rparr>)
      else None)"

definition derive_scratch_create_query ::
  "'w collaborators \<Rightarrow> 'w \<Rightarrow> StorageMaterializedView \<Rightarrow> ASTCreateQuery option
     \<Rightarrow> error + ASTCreateQuery" where
  "derive_scratch_create_query env w view inner_target_create_query =
     (case inner_target_create_query of
        Some q \<Rightarrow> Inr q
      | None \<Rightarrow> getCreateTableQuery env (database_name (target_table_id view))
                  (table_name (target_table_id view)) w)"

definition inner_create_queries ::
  "'w collaborators \<Rightarrow> 'w \<Rightarrow> StorageMaterializedView \<Rightarrow> ASTCreateQuery \<Rightarrow> bool
     \<Rightarrow> error + (ASTCreateQuery option \<times> ASTCreateQuery option \<times> bool)" where
  "inner_create_queries env w view query attach =
     (if attach then Inr (None, None, scratch_table_is_known_to_be_empty view)
      else
        let inner_target_create_query = make_inner_target_create_query view query
        in
          if has_scratch_table view then
            (case derive_scratch_create_query env w view inner_target_create_query of
               Inl e \<Rightarrow> Inl e
             | Inr scratch_create_query \<Rightarrow>
                 (case check_scratch_create_query env w scratch_create_query of
                    Some e \<Rightarrow> Inl e
                  | None \<Rightarrow> Inr (inner_target_create_query, Some scratch_create_query, True)))
          else Inr (inner_target_create_query, None, scratch_table_is_known_to_be_empty view))"

text \<open>
  The refresher, when the query has a refresh strategy. The \<^verbatim>\<open>chassert\<close> before it aborts
  only in a build that aborts on logical errors.
\<close>

definition create_refresher ::
  "'w collaborators \<Rightarrow> StorageID \<Rightarrow> ASTCreateQuery \<Rightarrow> bool \<Rightarrow> StorageMaterializedView
     \<Rightarrow> error + StorageMaterializedView" where
  "create_refresher env table_id query attach view =
     (case refresh_strategy query of
        None \<Rightarrow> Inr view
      | Some strategy \<Rightarrow>
          if abort_on_logical_error env
             \<and> has_scratch_table view \<noteq> (\<not> strategy_append strategy)
          then Inl ASSERTION_FAILED
          else Inr (view
            \<lparr>refresher := Some \<lparr>task_view = table_id, task_strategy = strategy\<rparr>,
             refresh_on_start := (\<not> attach \<and> \<not> is_create_empty query)\<rparr>))"

subsection \<open>Creating the inner tables, and the rollback\<close>

text \<open>
  The lambda \<^verbatim>\<open>execute_inner_create\<close>: nothing for a null create query; else the query gets
  the identifier's database, table and UUID and is executed as an internal create; then
  the identifier is read back from the catalog and recorded in
  \<^verbatim>\<open>created_inner_tables\<close>. The state is the world, the tables created so far and the
  events.
\<close>

definition execute_inner_create ::
  "'w collaborators \<Rightarrow> ASTCreateQuery option \<Rightarrow> StorageID \<Rightarrow> 'w \<times> StorageID list \<times> event list
     \<Rightarrow> (error + StorageID) \<times> 'w \<times> StorageID list \<times> event list" where
  "execute_inner_create env create_query sid st =
     (case st of (w, created_inner_tables, events) \<Rightarrow>
        (case create_query of
           None \<Rightarrow> (Inr sid, w, created_inner_tables, events)
         | Some q \<Rightarrow>
             let q' = q\<lparr>cq_database := database_name sid, cq_table := table_name sid,
                        cq_uuid := uuid sid\<rparr>
             in (case createQueryExecute env q' w of
                   (Some e, w') \<Rightarrow> (Inl e, w', created_inner_tables, events @ [EvCreate q'])
                 | (None, w') \<Rightarrow>
                     (case getTable env sid w' of
                        Inl e \<Rightarrow> (Inl e, w', created_inner_tables, events @ [EvCreate q'])
                      | Inr sid' \<Rightarrow>
                          (Inr sid', w', created_inner_tables @ [sid'],
                           events @ [EvCreate q'])))))"

text \<open>
  The handler: every table recorded is dropped, in the order of creation, with
  \<^verbatim>\<open>sync\<close> false, \<^verbatim>\<open>ignore_sync_setting\<close> true and \<^verbatim>\<open>may_lock_ddl_guard\<close> computed from the
  two qualified names; an exception of a drop is logged and the loop goes on.
\<close>

definition may_lock_ddl_guard :: "StorageID \<Rightarrow> StorageID \<Rightarrow> bool" where
  "may_lock_ddl_guard mv_storage_id sid =
     qualified_name_less (getQualifiedName mv_storage_id) (getQualifiedName sid)"

definition drop_call :: "StorageID \<Rightarrow> StorageID \<Rightarrow> event" where
  "drop_call mv_storage_id sid =
     EvDrop Drop sid False True (may_lock_ddl_guard mv_storage_id sid)"

fun drop_created_inner_tables ::
  "'w collaborators \<Rightarrow> StorageID \<Rightarrow> StorageID list \<Rightarrow> 'w \<Rightarrow> event list \<Rightarrow> 'w \<times> event list" where
  "drop_created_inner_tables env mv_storage_id [] w events = (w, events)"
| "drop_created_inner_tables env mv_storage_id (sid # rest) w events =
     (case executeDropQuery env Drop sid False True
             (may_lock_ddl_guard mv_storage_id sid) w of
        (None, w') \<Rightarrow>
          drop_created_inner_tables env mv_storage_id rest w'
            (events @ [drop_call mv_storage_id sid])
      | (Some e, w') \<Rightarrow>
          drop_created_inner_tables env mv_storage_id rest w'
            (events @ [drop_call mv_storage_id sid,
                       EvLogException e ''Failed to un-create inner table'']))"

text \<open>
  The \<^verbatim>\<open>try\<close> block and its handler: the target's create, then the scratch's; when one
  throws, the tables created so far are dropped and the exception is thrown again.
\<close>

definition create_inner_tables ::
  "'w collaborators \<Rightarrow> StorageID \<Rightarrow> StorageMaterializedView \<Rightarrow> ASTCreateQuery option
     \<Rightarrow> ASTCreateQuery option \<Rightarrow> 'w \<Rightarrow> (error + StorageMaterializedView) \<times> 'w \<times> event list" where
  "create_inner_tables env mv_storage_id view inner_target_create_query scratch_create_query w =
     (case execute_inner_create env inner_target_create_query (target_table_id view)
             (w, [], []) of
        (Inl e, w1, created1, events1) \<Rightarrow>
          (case drop_created_inner_tables env mv_storage_id created1 w1 events1 of
             (w2, events2) \<Rightarrow> (Inl e, w2, events2))
      | (Inr target, w1, created1, events1) \<Rightarrow>
          (case execute_inner_create env scratch_create_query (scratch_table_id view)
                  (w1, created1, events1) of
             (Inl e, w2, created2, events2) \<Rightarrow>
               (case drop_created_inner_tables env mv_storage_id created2 w2 events2 of
                  (w3, events3) \<Rightarrow> (Inl e, w3, events3))
           | (Inr scratch, w2, created2, events2) \<Rightarrow>
               (Inr (view\<lparr>target_table_id := target, scratch_table_id := scratch\<rparr>),
                w2, events2)))"

subsection \<open>StorageMaterializedView::StorageMaterializedView\<close>

text \<open>
  The result is the object or the exception, the world afterwards and the events.
\<close>

definition StorageMaterializedView_ctor ::
  "'w collaborators \<Rightarrow> 'w \<Rightarrow> StorageID \<Rightarrow> ASTCreateQuery \<Rightarrow> AST \<Rightarrow> bool \<Rightarrow> string
     \<Rightarrow> (error + StorageMaterializedView) \<times> 'w \<times> event list" where
  "StorageMaterializedView_ctor env w table_id query columns attach comment =
     (case bind_inner_table_ids env w table_id query columns comment of
        Inl e \<Rightarrow> (Inl e, w, [])
      | Inr view0 \<Rightarrow>
          (case inner_create_queries env w view0 query attach of
             Inl e \<Rightarrow> (Inl e, w, [])
           | Inr (inner_target_create_query, scratch_create_query, known_empty) \<Rightarrow>
               (case create_refresher env table_id query attach
                       (view0\<lparr>scratch_table_is_known_to_be_empty := known_empty\<rparr>) of
                  Inl e \<Rightarrow> (Inl e, w, [])
                | Inr view2 \<Rightarrow>
                    create_inner_tables env table_id view2 inner_target_create_query
                      scratch_create_query w)))"

section \<open>Member functions\<close>

subsection \<open>Resolving the inner tables\<close>

definition getTargetTable :: "'w collaborators \<Rightarrow> StorageMaterializedView \<Rightarrow> 'w \<Rightarrow> error + StorageID" where
  "getTargetTable env view w = getTable env (target_table_id view) w"

definition tryGetTargetTable :: "'w collaborators \<Rightarrow> StorageMaterializedView \<Rightarrow> 'w \<Rightarrow> StorageID option" where
  "tryGetTargetTable env view w = tryGetTable env (target_table_id view) w"

definition getScratchTable :: "'w collaborators \<Rightarrow> StorageMaterializedView \<Rightarrow> 'w \<Rightarrow> error + StorageID" where
  "getScratchTable env view w = getTable env (scratch_table_id view) w"

subsection \<open>truncate\<close>

text \<open>
  \<^verbatim>\<open>executeDropQuery(Kind::Truncate, ..., getTargetTableId(), true)\<close>: \<^verbatim>\<open>sync\<close> is true and the
  two trailing parameters keep their default, false.
\<close>

definition truncate ::
  "'w collaborators \<Rightarrow> StorageMaterializedView \<Rightarrow> 'w \<Rightarrow> (error + unit) \<times> 'w \<times> event list" where
  "truncate env view w =
     (if has_inner_target_table view then
        (case executeDropQuery env Truncate (target_table_id view) True False False w of
           (None, w') \<Rightarrow> (Inr (), w', [EvDrop Truncate (target_table_id view) True False False])
         | (Some e, w') \<Rightarrow> (Inl e, w', [EvDrop Truncate (target_table_id view) True False False]))
      else (Inr (), w, []))"

subsection \<open>prepareRefresh and transferRefreshedData\<close>

text \<open>
  The block that truncates the scratch table: the table is resolved, locked exclusively
  and truncated; the lock is a local of the block and is released when the block is
  left, by the end or by an exception of the truncate.
\<close>

definition truncate_scratch ::
  "'w collaborators \<Rightarrow> StorageMaterializedView \<Rightarrow> 'w \<Rightarrow> error option \<times> 'w \<times> event list" where
  "truncate_scratch env view w =
     (case getScratchTable env view w of
        Inl e \<Rightarrow> (Some e, w, [])
      | Inr scratch \<Rightarrow>
          (case lockExclusively env scratch w of
             (Some e, w1) \<Rightarrow> (Some e, w1, [EvLockExclusively scratch])
           | (None, w1) \<Rightarrow>
               (case storage_truncate env scratch w1 of
                  (r, w2) \<Rightarrow>
                    (r, unlock env scratch w2,
                     [EvLockExclusively scratch, EvTruncate scratch, EvUnlock scratch]))))"

text \<open>
  \<^verbatim>\<open>prepareRefresh\<close> returns the INSERT query or the exception, the object (its flag
  changed only on return), the world and the events. The second argument is the setting
  \<^verbatim>\<open>allow_experimental_analyzer\<close> of the refresh context.
\<close>

definition prepareRefresh ::
  "'w collaborators \<Rightarrow> bool \<Rightarrow> StorageMaterializedView \<Rightarrow> 'w
     \<Rightarrow> (error + ASTInsertQuery) \<times> StorageMaterializedView \<times> 'w \<times> event list" where
  "prepareRefresh env allow_experimental_analyzer view w =
     (let target = (if has_scratch_table view then scratch_table_id view
                    else target_table_id view)
      in
        (case (if has_scratch_table view \<and> \<not> scratch_table_is_known_to_be_empty view
               then truncate_scratch env view w else (None, w, [])) of
           (Some e, w1, events1) \<Rightarrow> (Inl e, view, w1, events1)
         | (None, w1, events1) \<Rightarrow>
             let insert_select = select_query (metadata_select view);
                 events2 = events1 @ [EvGetSampleBlock allow_experimental_analyzer insert_select]
             in
               (case (if allow_experimental_analyzer
                      then analyzer_getSampleBlock env insert_select w1
                      else interpreter_getSampleBlock env insert_select w1) of
                  Inl e \<Rightarrow> (Inl e, view, w1, events2)
                | Inr header \<Rightarrow>
                    (Inr \<lparr>insert_select = insert_select,
                          insert_table = table_name target,
                          insert_database = database_name target,
                          insert_table_id = target,
                          insert_columns = getNames header\<rparr>,
                     view\<lparr>scratch_table_is_known_to_be_empty := False\<rparr>, w1, events2))))"

text \<open>
  In \<^verbatim>\<open>getTargetTable()->transferAllDataFrom(getScratchTable(), ...)\<close> the target is
  resolved before the scratch table.
\<close>

definition transferRefreshedData ::
  "'w collaborators \<Rightarrow> StorageMaterializedView \<Rightarrow> 'w
     \<Rightarrow> (error + unit) \<times> StorageMaterializedView \<times> 'w \<times> event list" where
  "transferRefreshedData env view w =
     (if \<not> has_scratch_table view then (Inr (), view, w, [])
      else
        (case getTargetTable env view w of
           Inl e \<Rightarrow> (Inl e, view, w, [])
         | Inr target \<Rightarrow>
             (case getScratchTable env view w of
                Inl e \<Rightarrow> (Inl e, view, w, [])
              | Inr scratch \<Rightarrow>
                  (case transferAllDataFrom env target scratch True True w of
                     (Some e, w') \<Rightarrow>
                       (Inl e, view, w', [EvTransferAllDataFrom target scratch True True])
                   | (None, w') \<Rightarrow>
                       (Inr (), view\<lparr>scratch_table_is_known_to_be_empty := True\<rparr>, w',
                        [EvTransferAllDataFrom target scratch True True])))))"

subsection \<open>checkAlterIsPossible\<close>

fun checkAlterIsPossible :: "StorageMaterializedView \<Rightarrow> AlterCommand list \<Rightarrow> error + unit" where
  "checkAlterIsPossible view [] = Inr ()"
| "checkAlterIsPossible view (command # commands) =
     (if isCommentAlter command then checkAlterIsPossible view commands
      else if command_type command = MODIFY_QUERY then checkAlterIsPossible view commands
      else if command_type command = MODIFY_REFRESH then
        (if refresher view = None then Inl NOT_IMPLEMENTED
         else if strategy_append (refresh command) \<noteq> (\<not> has_scratch_table view)
         then Inl NOT_IMPLEMENTED
         else checkAlterIsPossible view commands)
      else Inl NOT_IMPLEMENTED)"

subsection \<open>totalRows, totalBytes, totalBytesUncompressed\<close>

definition totalRows :: "'w collaborators \<Rightarrow> StorageMaterializedView \<Rightarrow> 'w \<Rightarrow> 64 word option" where
  "totalRows env view w =
     (if has_inner_target_table view then
        (case tryGetTargetTable env view w of
           Some table \<Rightarrow> storage_totalRows env table w
         | None \<Rightarrow> None)
      else None)"

definition totalBytes :: "'w collaborators \<Rightarrow> StorageMaterializedView \<Rightarrow> 'w \<Rightarrow> 64 word option" where
  "totalBytes env view w =
     (if has_inner_target_table view then
        (case tryGetTargetTable env view w of
           Some table \<Rightarrow> storage_totalBytes env table w
         | None \<Rightarrow> None)
      else None)"

definition totalBytesUncompressed :: "'w collaborators \<Rightarrow> StorageMaterializedView \<Rightarrow> 'w \<Rightarrow> 64 word option" where
  "totalBytesUncompressed env view w =
     (if has_inner_target_table view then
        (case tryGetTargetTable env view w of
           Some table \<Rightarrow> storage_totalBytesUncompressed env table w
         | None \<Rightarrow> None)
      else None)"

section \<open>A test double for the collaborators\<close>

text \<open>
  The world is the list of the tables of the catalog. A create adds the table the query
  names, unless the table's name is in \<open>failing_creates\<close> (then it throws code 57, table
  already exists); a drop removes it, unless its name is in \<open>failing_drops\<close> (then it
  throws code 1000); a lookup matches database and table name and throws code 60,
  unknown table, when nothing matches. Three engines are registered: MergeTree (moves
  data), ReplicatedMergeTree (moves data, replicated), Log (neither). Every SELECT reads
  from \<open>db.src\<close> and has the sample block \<open>(a UInt64, b String)\<close>.
\<close>

definition find_table :: "StorageID \<Rightarrow> StorageID list \<Rightarrow> StorageID option" where
  "find_table sid w =
     List.find (\<lambda>t. database_name t = database_name sid \<and> table_name t = table_name sid) w"

definition fake_features :: "string \<Rightarrow> StorageFeatures option" where
  "fake_features name =
     (if name = ''MergeTree''
      then Some \<lparr>supports_moving_data_between_tables = True, supports_replication = False\<rparr>
      else if name = ''ReplicatedMergeTree''
      then Some \<lparr>supports_moving_data_between_tables = True, supports_replication = True\<rparr>
      else if name = ''Log''
      then Some \<lparr>supports_moving_data_between_tables = False, supports_replication = False\<rparr>
      else None)"

definition fake_sample_block :: Block where
  "fake_sample_block =
     [\<lparr>col_name = ''a'', col_type = ''UInt64''\<rparr>, \<lparr>col_name = ''b'', col_type = ''String''\<rparr>]"

definition fake_env :: "string list \<Rightarrow> string list \<Rightarrow> (StorageID list) collaborators" where
  "fake_env failing_creates failing_drops =
     \<lparr>getSelectQueryFromASTForMatView =
        (\<lambda>ast refreshable w. Inr \<lparr>select_table_id = mkStorageID ''db'' ''src'', select_query = ast\<rparr>),
      getDependentViews = (\<lambda>sid w. []),
      max_materialized_views_count_for_table = (\<lambda>w. 0),
      getCreateTableQuery =
        (\<lambda>db tbl w.
           (case find_table (mkStorageID db tbl) w of
              None \<Rightarrow> Inl (OTHER_ERROR 60)
            | Some t \<Rightarrow>
                Inr (new_ASTCreateQuery
                  \<lparr>cq_database := db, cq_table := tbl, cq_uuid := uuid t,
                   columns_list := ''a UInt64, b String'',
                   storage := Some \<lparr>engine = Some ''Log'', partition_by = None\<rparr>\<rparr>))),
      tryGetFeatures = (\<lambda>name w. fake_features name),
      abort_on_logical_error = True,
      createQueryExecute =
        (\<lambda>q w.
           if cq_table q \<in> set failing_creates then (Some (OTHER_ERROR 57), w)
           else (None, w @ [\<lparr>database_name = cq_database q, table_name = cq_table q,
                             uuid = cq_uuid q\<rparr>])),
      getTable =
        (\<lambda>sid w. case find_table sid w of None \<Rightarrow> Inl (OTHER_ERROR 60) | Some t \<Rightarrow> Inr t),
      tryGetTable = (\<lambda>sid w. find_table sid w),
      executeDropQuery =
        (\<lambda>kind sid sync ignore_sync_setting need_ddl_guard w.
           if table_name sid \<in> set failing_drops then (Some (OTHER_ERROR 1000), w)
           else if kind = Truncate then (None, w)
           else (None, filter (\<lambda>t. \<not> (database_name t = database_name sid
                                        \<and> table_name t = table_name sid)) w)),
      lockExclusively = (\<lambda>sid w. (None, w)),
      unlock = (\<lambda>sid w. w),
      storage_truncate = (\<lambda>sid w. (None, w)),
      transferAllDataFrom = (\<lambda>target scratch remove_from_source replace_at_destination w. (None, w)),
      analyzer_getSampleBlock = (\<lambda>ast w. Inr fake_sample_block),
      interpreter_getSampleBlock = (\<lambda>ast w. Inr fake_sample_block),
      storage_totalRows = (\<lambda>sid w. Some 5),
      storage_totalBytes = (\<lambda>sid w. Some 40),
      storage_totalBytesUncompressed = (\<lambda>sid w. Some 80)\<rparr>"

text \<open>
  The view \<open>db.v\<close> and three CREATE queries for it: refreshable without APPEND with
  an engine of its own (two inner tables), the same with a TO table (a scratch table
  only), and a plain view with a TO table (no inner table).
\<close>

definition view_id :: StorageID where
  "view_id = \<lparr>database_name = ''db'', table_name = ''v'', uuid = Nil_UUID\<rparr>"

definition dst_id :: StorageID where
  "dst_id = \<lparr>database_name = ''db'', table_name = ''dst'', uuid = Nil_UUID\<rparr>"

definition refreshable_query :: "string \<Rightarrow> ASTCreateQuery" where
  "refreshable_query engine_name =
     new_ASTCreateQuery
       \<lparr>cq_database := ''db'', cq_table := ''v'',
        select := Some ''SELECT a, b FROM db.src'',
        storage := Some \<lparr>engine = Some engine_name, partition_by = None\<rparr>,
        columns_list := ''a UInt64, b String'',
        refresh_strategy := Some \<lparr>strategy_append = False, strategy_schedule = ''EVERY 1 HOUR''\<rparr>,
        is_materialized_view := True,
        needsInnerTargetTable := True, needsScratchTable := True, needsInnerTables := 2\<rparr>"

definition refreshable_to_query :: ASTCreateQuery where
  "refreshable_to_query =
     new_ASTCreateQuery
       \<lparr>cq_database := ''db'', cq_table := ''v'',
        select := Some ''SELECT a, b FROM db.src'',
        columns_list := ''a UInt64, b String'',
        refresh_strategy := Some \<lparr>strategy_append = False, strategy_schedule = ''EVERY 1 HOUR''\<rparr>,
        to_table_id := dst_id,
        is_materialized_view := True,
        needsInnerTargetTable := False, needsScratchTable := True, needsInnerTables := 1\<rparr>"

definition plain_to_query :: ASTCreateQuery where
  "plain_to_query =
     new_ASTCreateQuery
       \<lparr>cq_database := ''db'', cq_table := ''v'',
        select := Some ''SELECT a, b FROM db.src'',
        columns_list := ''a UInt64, b String'',
        to_table_id := dst_id,
        is_materialized_view := True\<rparr>"

text \<open>
  The objects the constructor builds from the first and the third query (see
  \<open>ctor_refreshable_view\<close> and \<open>ctor_external_view\<close> below).
\<close>

definition refreshable_view :: StorageMaterializedView where
  "refreshable_view =
     \<lparr>storage_id = view_id,
      metadata_columns = ''a UInt64, b String'',
      metadata_select =
        \<lparr>select_table_id = mkStorageID ''db'' ''src'', select_query = ''SELECT a, b FROM db.src''\<rparr>,
      metadata_comment = [],
      metadata_refresh = Some \<lparr>strategy_append = False, strategy_schedule = ''EVERY 1 HOUR''\<rparr>,
      has_inner_target_table = True,
      has_scratch_table = True,
      target_table_id = mkStorageID ''db'' ''.inner.v'',
      scratch_table_id = mkStorageID ''db'' ''.inner_scratch.v'',
      scratch_table_is_known_to_be_empty = True,
      refresher = Some \<lparr>task_view = view_id,
                        task_strategy = \<lparr>strategy_append = False, strategy_schedule = ''EVERY 1 HOUR''\<rparr>\<rparr>,
      refresh_on_start = True\<rparr>"

definition external_view :: StorageMaterializedView where
  "external_view =
     \<lparr>storage_id = view_id,
      metadata_columns = ''a UInt64, b String'',
      metadata_select =
        \<lparr>select_table_id = mkStorageID ''db'' ''src'', select_query = ''SELECT a, b FROM db.src''\<rparr>,
      metadata_comment = [],
      metadata_refresh = None,
      has_inner_target_table = False,
      has_scratch_table = False,
      target_table_id = dst_id,
      scratch_table_id = createEmpty,
      scratch_table_is_known_to_be_empty = False,
      refresher = None,
      refresh_on_start = False\<rparr>"

text \<open>The catalog after the construction of \<open>refreshable_view\<close>.\<close>

definition two_inner_tables :: "StorageID list" where
  "two_inner_tables = [mkStorageID ''db'' ''.inner.v'', mkStorageID ''db'' ''.inner_scratch.v'']"

section \<open>Header reconciliation\<close>

lemma getPositionByName_Some:
  "getPositionByName b n = Some i \<Longrightarrow> i < length b \<and> col_name (b ! i) = n"
  by (induction b arbitrary: i) (auto split: if_splits option.splits)

lemma getPositionByName_distinct:
  "distinct (map col_name b) \<Longrightarrow> i < length b \<Longrightarrow> getPositionByName b (col_name (b ! i)) = Some i"
proof (induction b arbitrary: i)
  case Nil
  then show ?case by simp
next
  case (Cons c cs)
  show ?case
  proof (cases i)
    case 0
    then show ?thesis by simp
  next
    case (Suc j)
    with Cons.prems have j: "j < length cs" and d: "distinct (map col_name cs)"
      and nin: "col_name c \<notin> col_name ` set cs" by auto
    from j have "col_name (cs ! j) \<in> col_name ` set cs" by simp
    with nin have "col_name c \<noteq> col_name (cs ! j)" by metis
    with Cons.IH[OF d j] Suc show ?thesis by simp
  qed
qed

lemma set_target_only_positions:
  "set (target_only_positions s t rest) =
     {i. \<exists>c \<in> set rest. \<not> has s (col_name c) \<and> getPositionByName t (col_name c) = Some i}"
  by (induction rest) (auto split: option.splits)

lemma erase_eq_filter:
  "(\<And>i. i < length b \<Longrightarrow> (i \<in> set ps) = (\<not> P (b ! i))) \<Longrightarrow> erase ps b = filter P b"
proof (induction b rule: rev_induct)
  case Nil
  then show ?case by (simp add: erase_def)
next
  case (snoc x xs)
  have IH: "erase ps xs = filter P xs"
  proof (rule snoc.IH)
    fix i assume "i < length xs"
    with snoc.prems[of i] show "(i \<in> set ps) = (\<not> P (xs ! i))" by (simp add: nth_append)
  qed
  from snoc.prems[of "length xs"] have last: "(length xs \<in> set ps) = (\<not> P x)" by simp
  have "erase ps (xs @ [x]) = erase ps xs @ (if length xs \<in> set ps then [] else [x])"
    by (simp add: erase_def)
  with IH last show ?case by simp
qed

text \<open>
  On a header whose column names are pairwise distinct, \<^verbatim>\<open>removeNonCommonColumns\<close> keeps
  exactly the columns whose name the other header has, in their order.
\<close>

lemma removeNonCommonColumns_filter:
  assumes "distinct (map col_name t)"
  shows "removeNonCommonColumns s t = filter (\<lambda>c. has s (col_name c)) t"
  unfolding removeNonCommonColumns_def
proof (rule erase_eq_filter)
  fix i assume i: "i < length t"
  show "(i \<in> set (target_only_positions s t t)) = (\<not> has s (col_name (t ! i)))"
  proof
    assume "i \<in> set (target_only_positions s t t)"
    then obtain c :: ColumnWithTypeAndName
      where "\<not> has s (col_name c)" "getPositionByName t (col_name c) = Some i"
      unfolding set_target_only_positions by blast
    then show "\<not> has s (col_name (t ! i))"
      using getPositionByName_Some by fastforce
  next
    assume "\<not> has s (col_name (t ! i))"
    moreover have "t ! i \<in> set t" using i by simp
    moreover have "getPositionByName t (col_name (t ! i)) = Some i"
      using assms i by (rule getPositionByName_distinct)
    ultimately show "i \<in> set (target_only_positions s t t)"
      by (auto simp: set_target_only_positions)
  qed
qed

lemma has_iff: "has b n \<longleftrightarrow> (\<exists>c. c \<in> set b \<and> col_name c = n)"
  unfolding has_def set_map image_iff by metis

lemma has_filter: "has (filter (\<lambda>c. has s (col_name c)) t) n = (has s n \<and> has t n)"
  unfolding has_iff[of "filter (\<lambda>c. has s (col_name c)) t"] has_iff[of t] set_filter mem_Collect_eq
  by metis

text \<open>
  Distinct names are needed: the lookup by name gives the first position of a repeated
  name, so of two columns \<open>a\<close> missing from the other header only the first is erased.
\<close>

lemma removeNonCommonColumns_repeated_name:
  "removeNonCommonColumns []
     [\<lparr>col_name = ''a'', col_type = ''UInt64''\<rparr>, \<lparr>col_name = ''a'', col_type = ''UInt64''\<rparr>]
   = [\<lparr>col_name = ''a'', col_type = ''UInt64''\<rparr>]"
  by (simp add: removeNonCommonColumns_def erase_def has_def)

text \<open>
  C9 (as amended). For two headers, each with pairwise distinct column names: pruning the
  target header by the view's header and then the view's header by the pruned target
  header (the order of \<^verbatim>\<open>read\<close>) leaves in each header exactly the columns whose names
  are in both original headers, in their original order; pruning in the other order
  gives the same two headers; and the two pruned headers have the same set of column
  names. Their structure (types, order) may still differ.
\<close>

theorem header_reconciliation_commutes:
  assumes "distinct (map col_name mv_header)" and "distinct (map col_name target_header)"
  shows "removeNonCommonColumns mv_header target_header
           = filter (\<lambda>c. has mv_header (col_name c)) target_header
       \<and> removeNonCommonColumns (removeNonCommonColumns mv_header target_header) mv_header
           = filter (\<lambda>c. has target_header (col_name c)) mv_header
       \<and> removeNonCommonColumns target_header mv_header
           = removeNonCommonColumns (removeNonCommonColumns mv_header target_header) mv_header
       \<and> removeNonCommonColumns (removeNonCommonColumns target_header mv_header) target_header
           = removeNonCommonColumns mv_header target_header
       \<and> set (getNames (removeNonCommonColumns mv_header target_header))
           = set (getNames (removeNonCommonColumns
                   (removeNonCommonColumns mv_header target_header) mv_header))"
proof -
  have t1: "removeNonCommonColumns mv_header target_header
              = filter (\<lambda>c. has mv_header (col_name c)) target_header"
    using assms(2) by (rule removeNonCommonColumns_filter)
  have m2: "removeNonCommonColumns target_header mv_header
              = filter (\<lambda>c. has target_header (col_name c)) mv_header"
    using assms(1) by (rule removeNonCommonColumns_filter)
  have m1: "removeNonCommonColumns (removeNonCommonColumns mv_header target_header) mv_header
              = filter (\<lambda>c. has target_header (col_name c)) mv_header"
    unfolding t1 removeNonCommonColumns_filter[OF assms(1)]
    by (rule filter_cong) (auto simp: has_filter, simp add: has_def)
  have t2: "removeNonCommonColumns (removeNonCommonColumns target_header mv_header) target_header
              = filter (\<lambda>c. has mv_header (col_name c)) target_header"
    unfolding m2 removeNonCommonColumns_filter[OF assms(2)]
    by (rule filter_cong) (auto simp: has_filter, simp add: has_def)
  have names: "set (getNames (filter (\<lambda>c. has mv_header (col_name c)) target_header))
                = set (getNames (filter (\<lambda>c. has target_header (col_name c)) mv_header))"
  proof -
    have "set (getNames (filter (\<lambda>c. has mv_header (col_name c)) target_header))
            = {n. has mv_header n \<and> has target_header n}"
      using has_filter[of mv_header target_header] by (auto simp: has_def getNames_def)
    moreover have "set (getNames (filter (\<lambda>c. has target_header (col_name c)) mv_header))
            = {n. has mv_header n \<and> has target_header n}"
      using has_filter[of target_header mv_header] by (auto simp: has_def getNames_def)
    ultimately show ?thesis by simp
  qed
  show ?thesis using t1 m1 m2 t2 names by simp
qed

text \<open>
  The view's header \<open>(a UInt64, b String)\<close> against the target's \<open>(c Date, b UInt8)\<close>:
  both keep the column \<open>b\<close> only, whichever header is pruned first.
\<close>

theorem header_reconciliation_commutes_witness:
  "distinct (map col_name
     [\<lparr>col_name = ''a'', col_type = ''UInt64''\<rparr>, \<lparr>col_name = ''b'', col_type = ''String''\<rparr>])
   \<and> distinct (map col_name
     [\<lparr>col_name = ''c'', col_type = ''Date''\<rparr>, \<lparr>col_name = ''b'', col_type = ''UInt8''\<rparr>])
   \<and> removeNonCommonColumns
       [\<lparr>col_name = ''a'', col_type = ''UInt64''\<rparr>, \<lparr>col_name = ''b'', col_type = ''String''\<rparr>]
       [\<lparr>col_name = ''c'', col_type = ''Date''\<rparr>, \<lparr>col_name = ''b'', col_type = ''UInt8''\<rparr>]
     = [\<lparr>col_name = ''b'', col_type = ''UInt8''\<rparr>]
   \<and> removeNonCommonColumns
       [\<lparr>col_name = ''c'', col_type = ''Date''\<rparr>, \<lparr>col_name = ''b'', col_type = ''UInt8''\<rparr>]
       [\<lparr>col_name = ''a'', col_type = ''UInt64''\<rparr>, \<lparr>col_name = ''b'', col_type = ''String''\<rparr>]
     = [\<lparr>col_name = ''b'', col_type = ''String''\<rparr>]"
proof -
  let ?mv = "[\<lparr>col_name = ''a'', col_type = ''UInt64''\<rparr>, \<lparr>col_name = ''b'', col_type = ''String''\<rparr>]"
  let ?target = "[\<lparr>col_name = ''c'', col_type = ''Date''\<rparr>, \<lparr>col_name = ''b'', col_type = ''UInt8''\<rparr>]"
  have d1: "distinct (map col_name ?mv)" by simp
  have d2: "distinct (map col_name ?target)" by simp
  note r = header_reconciliation_commutes [OF d1 d2]
  from r have t: "removeNonCommonColumns ?mv ?target = filter (\<lambda>c. has ?mv (col_name c)) ?target"
    by (rule conjunct1)
  from r have m: "removeNonCommonColumns ?target ?mv = filter (\<lambda>c. has ?target (col_name c)) ?mv"
    by (elim conjE) (rule trans)
  show ?thesis unfolding t m using d1 d2 by (simp add: has_def)
qed

text \<open>
  As the specification states it, the property fails: the view's header \<open>(a UInt64)\<close> and the target's
  \<open>(a String)\<close> have the same names, nothing is pruned, and the two headers do not have
  equal structure (this is the case in which \<^verbatim>\<open>read\<close> adds the converting step).
\<close>

theorem header_reconciliation_counterexample:
  "\<not> blocksHaveEqualStructure
       (removeNonCommonColumns
          (removeNonCommonColumns [\<lparr>col_name = ''a'', col_type = ''UInt64''\<rparr>]
             [\<lparr>col_name = ''a'', col_type = ''String''\<rparr>])
          [\<lparr>col_name = ''a'', col_type = ''UInt64''\<rparr>])
       (removeNonCommonColumns [\<lparr>col_name = ''a'', col_type = ''UInt64''\<rparr>]
          [\<lparr>col_name = ''a'', col_type = ''String''\<rparr>])"
  by (simp add: blocksHaveEqualStructure_def removeNonCommonColumns_def erase_def has_def)

section \<open>The test double at work\<close>

lemmas fake_defs = fake_env_def find_table_def fake_features_def fake_sample_block_def
  view_id_def dst_id_def mkStorageID_def createEmpty_def Nil_UUID_def new_ASTCreateQuery_def

lemmas ctor_defs = StorageMaterializedView_ctor_def bind_inner_table_ids_def
  inner_create_queries_def make_inner_target_create_query_def derive_scratch_create_query_def
  check_scratch_create_query_def create_refresher_def create_inner_tables_def
  execute_inner_create_def generateInnerTableName_def hasUUID_def storage_id_empty_def
  toString_def getTableName_def drop_call_def may_lock_ddl_guard_def getQualifiedName_def
  qualified_name_less_def Let_def

text \<open>
  Scenario S2 of the specification: a refreshable view without APPEND and with an engine
  of its own gets two inner tables, the target's created first.
\<close>

lemma ctor_refreshable_view:
  "StorageMaterializedView_ctor (fake_env [] []) [] view_id (refreshable_query ''MergeTree'')
     ''a UInt64, b String'' False [] 
   = (Inr refreshable_view, two_inner_tables,
      [EvCreate (new_ASTCreateQuery
         \<lparr>cq_database := ''db'', cq_table := ''.inner.v'', 
          storage := Some \<lparr>engine = Some ''MergeTree'', partition_by = None\<rparr>,
          columns_list := ''a UInt64, b String''\<rparr>),
       EvCreate (new_ASTCreateQuery
         \<lparr>cq_database := ''db'', cq_table := ''.inner_scratch.v'', 
          storage := Some \<lparr>engine = Some ''MergeTree'', partition_by = None\<rparr>,
          columns_list := ''a UInt64, b String''\<rparr>)])"
  by (simp add: ctor_defs fake_defs refreshable_query_def refreshable_view_def two_inner_tables_def)

lemma ctor_external_view:
  "StorageMaterializedView_ctor (fake_env [] []) [dst_id] view_id plain_to_query
     ''a UInt64, b String'' False [] = (Inr external_view, [dst_id], [])"
  by (simp add: ctor_defs fake_defs plain_to_query_def external_view_def)

section \<open>The constructor: the phases\<close>

text \<open>What the validation leaves in the object.\<close>

lemma bind_inner_table_ids_flags:
  assumes "bind_inner_table_ids env w table_id query columns comment = Inr view0"
  shows "has_inner_target_table view0 = needsInnerTargetTable query"
    and "has_scratch_table view0 = needsScratchTable query"
    and "storage_id view0 = table_id"
    and "refresher view0 = None"
    and "\<not> scratch_table_is_known_to_be_empty view0"
  using assms
  by (auto simp: bind_inner_table_ids_def Let_def split: option.splits sum.splits if_splits)



lemma bind_inner_table_ids_uuid_mismatch:
  assumes "select query = Some query_select"
    and "needsInnerTargetTable query \<longrightarrow> storage query \<noteq> None"
    and "getSelectQueryFromASTForMatView env query_select (refresh_strategy query \<noteq> None) w
           = Inr select_description"
    and "storage_id_empty (select_table_id select_description)
         \<or> max_materialized_views_count_for_table env w = 0
         \<or> length (getDependentViews env (select_table_id select_description) w)
             < max_materialized_views_count_for_table env w"
    and "uuid table_id \<notin> set (to_inner_uuid query)"
    and "database_name (to_table_id query) \<noteq> database_name table_id
         \<or> table_name (to_table_id query) \<noteq> table_name table_id"
    and "to_inner_uuid query \<noteq> []"
    and "length (to_inner_uuid query) \<noteq> needsInnerTables query"
  shows "bind_inner_table_ids env w table_id query columns comment = Inl INCORRECT_QUERY"
  using assms by (auto simp: bind_inner_table_ids_def Let_def)

lemma bind_inner_table_ids_uuids:
  assumes "bind_inner_table_ids env w table_id query columns comment = Inr view0"
    and "to_inner_uuid query \<noteq> []"
  shows "length (to_inner_uuid query) = needsInnerTables query
       \<and> (needsInnerTargetTable query \<longrightarrow> uuid (target_table_id view0) = to_inner_uuid query ! 0)
       \<and> (needsScratchTable query \<longrightarrow> uuid (scratch_table_id view0) = last (to_inner_uuid query))"
  using assms
  by (auto simp: bind_inner_table_ids_def Let_def hd_conv_nth
      split: option.splits sum.splits if_splits)

lemma create_refresher_ids:
  assumes "create_refresher env table_id query attach view = Inr view2"
  shows "target_table_id view2 = target_table_id view"
    and "scratch_table_id view2 = scratch_table_id view"
    and "has_inner_target_table view2 = has_inner_target_table view"
    and "has_scratch_table view2 = has_scratch_table view"
  using assms by (auto simp: create_refresher_def split: option.splits if_splits)

text \<open>One create: what a normal return and what an exception say about it.\<close>

lemma execute_inner_create_Some_Inr:
  assumes "execute_inner_create env (Some q) sid (w, created, events) = (Inr sid', w', created', events')"
  shows "createQueryExecute env
           (q\<lparr>cq_database := database_name sid, cq_table := table_name sid, cq_uuid := uuid sid\<rparr>) w
           = (None, w')
       \<and> getTable env sid w' = Inr sid'
       \<and> created' = created @ [sid']
       \<and> events' = events @ [EvCreate
           (q\<lparr>cq_database := database_name sid, cq_table := table_name sid, cq_uuid := uuid sid\<rparr>)]"
  using assms
  by (auto simp: execute_inner_create_def Let_def split: option.splits sum.splits prod.splits)

lemma execute_inner_create_Inl:
  assumes "execute_inner_create env cq sid (w, created, events) = (Inl e, w', created', events')"
  shows "\<exists>q. cq = Some q \<and> created' = created
       \<and> events' = events @ [EvCreate
           (q\<lparr>cq_database := database_name sid, cq_table := table_name sid, cq_uuid := uuid sid\<rparr>)]"
  using assms
  by (auto simp: execute_inner_create_def Let_def split: option.splits sum.splits prod.splits)

lemma execute_inner_create_events:
  assumes "execute_inner_create env cq sid (w, created, events) = (Inr sid', w', created', events')"
  shows "\<exists>creates. events' = events @ map EvCreate creates
           \<and> map created_id creates = (if cq = None then [] else [sid])"
proof (cases cq)
  case None
  with assms show ?thesis by (simp add: execute_inner_create_def)
next
  case (Some q)
  with execute_inner_create_Some_Inr[of env q sid w created events sid' w' created' events'] assms
  have "events' = events @ map EvCreate
          [q\<lparr>cq_database := database_name sid, cq_table := table_name sid, cq_uuid := uuid sid\<rparr>]"
    by simp
  moreover have "map created_id
          [q\<lparr>cq_database := database_name sid, cq_table := table_name sid, cq_uuid := uuid sid\<rparr>] = [sid]"
    by (simp add: created_id_def)
  ultimately show ?thesis using Some by (intro exI[of _ "[q\<lparr>cq_database := database_name sid, cq_table := table_name sid, cq_uuid := uuid sid\<rparr>]"]) simp
qed

lemma inner_create_queries_shape:
  assumes "inner_create_queries env w view query False = Inr (tq, sq, k)"
  shows "(tq \<noteq> None) = has_inner_target_table view" and "(sq \<noteq> None) = has_scratch_table view"
  using assms
  by (auto simp: inner_create_queries_def make_inner_target_create_query_def Let_def
      split: if_splits sum.splits option.splits)

lemma attach_no_create_queries:
  "inner_create_queries env w view query True = Inr (None, None, scratch_table_is_known_to_be_empty view)"
  by (simp add: inner_create_queries_def)

lemma create_inner_tables_nothing:
  "create_inner_tables env mv view None None w = (Inr view, w, [])"
  by (simp add: create_inner_tables_def execute_inner_create_def)

lemma create_inner_tables_events:
  assumes "create_inner_tables env mv view tq sq w = (Inr view', w', events)"
  shows "\<exists>creates. events = map EvCreate creates
           \<and> map created_id creates
               = (if tq = None then [] else [target_table_id view])
                 @ (if sq = None then [] else [scratch_table_id view])"
proof -
  from assms obtain target w1 created1 events1 scratch created2 where
    t: "execute_inner_create env tq (target_table_id view) (w, [], []) = (Inr target, w1, created1, events1)"
    and s: "execute_inner_create env sq (scratch_table_id view) (w1, created1, events1) = (Inr scratch, w', created2, events)"
    by (auto simp: create_inner_tables_def split: sum.splits prod.splits)
  from execute_inner_create_events[OF t] obtain c1 where
    c1: "events1 = map EvCreate c1" "map created_id c1 = (if tq = None then [] else [target_table_id view])"
    by auto
  from execute_inner_create_events[OF s] obtain c2 where
    c2: "events = events1 @ map EvCreate c2" "map created_id c2 = (if sq = None then [] else [scratch_table_id view])"
    by auto
  from c1 c2 show ?thesis by (intro exI[of _ "c1 @ c2"]) simp
qed

text \<open>
  A construction that returns has issued one create for each inner table the view
  needs, the target's first, each for the identifier bound before.
\<close>

lemma ctor_creates_bound_ids:
  assumes "bind_inner_table_ids env w table_id query columns comment = Inr view0"
    and "StorageMaterializedView_ctor env w table_id query columns False comment = (Inr view, w', events)"
  shows "\<exists>creates. events = map EvCreate creates
           \<and> map created_id creates
               = (if needsInnerTargetTable query then [target_table_id view0] else [])
                 @ (if needsScratchTable query then [scratch_table_id view0] else [])"
proof -
  from assms obtain tq sq k view2 where
    i: "inner_create_queries env w view0 query False = Inr (tq, sq, k)"
    and r: "create_refresher env table_id query False (view0\<lparr>scratch_table_is_known_to_be_empty := k\<rparr>) = Inr view2"
    and c: "create_inner_tables env table_id view2 tq sq w = (Inr view, w', events)"
    by (auto simp: StorageMaterializedView_ctor_def split: sum.splits prod.splits)
  from create_refresher_ids(1,2)[OF r]
  have ids: "target_table_id view2 = target_table_id view0" "scratch_table_id view2 = scratch_table_id view0"
    by simp_all
  from inner_create_queries_shape[OF i] bind_inner_table_ids_flags[OF assms(1)]
  have shape: "(tq = None) = (\<not> needsInnerTargetTable query)" "(sq = None) = (\<not> needsScratchTable query)"
    by auto
  from create_inner_tables_events[OF c] show ?thesis
    unfolding ids shape
    by (cases "needsInnerTargetTable query"; cases "needsScratchTable query"; simp)
qed

text \<open>
  With no TO INNER UUID the number of inner tables the query asks for is never read.
\<close>

lemma bind_inner_table_ids_empty_uuids:
  assumes "select query = Some query_select"
    and "needsInnerTargetTable query \<longrightarrow> storage query \<noteq> None"
    and "getSelectQueryFromASTForMatView env query_select (refresh_strategy query \<noteq> None) w
           = Inr select_description"
    and "storage_id_empty (select_table_id select_description)
         \<or> max_materialized_views_count_for_table env w = 0
         \<or> length (getDependentViews env (select_table_id select_description) w)
             < max_materialized_views_count_for_table env w"
    and "database_name (to_table_id query) \<noteq> database_name table_id
         \<or> table_name (to_table_id query) \<noteq> table_name table_id"
    and "to_inner_uuid query = []"
  shows "\<exists>view0. bind_inner_table_ids env w table_id query columns comment = Inr view0"
  using assms by (auto simp: bind_inner_table_ids_def Let_def)

lemma bind_inner_table_ids_ignores_count:
  "to_inner_uuid query = [] \<Longrightarrow>
   bind_inner_table_ids env w table_id (query\<lparr>needsInnerTables := n\<rparr>) columns comment
     = bind_inner_table_ids env w table_id query columns comment"
  by (simp add: bind_inner_table_ids_def cong: option.case_cong sum.case_cong if_cong)

lemma inner_create_queries_ignores_count:
  "inner_create_queries env w view (query\<lparr>needsInnerTables := n\<rparr>) attach
     = inner_create_queries env w view query attach"
  by (simp add: inner_create_queries_def make_inner_target_create_query_def)

lemma create_refresher_ignores_count:
  "create_refresher env table_id (query\<lparr>needsInnerTables := n\<rparr>) attach view
     = create_refresher env table_id query attach view"
  by (simp add: create_refresher_def cong: option.case_cong if_cong)

lemma ctor_ignores_count:
  "to_inner_uuid query = [] \<Longrightarrow>
   StorageMaterializedView_ctor env w table_id (query\<lparr>needsInnerTables := n\<rparr>) columns attach comment
     = StorageMaterializedView_ctor env w table_id query columns attach comment"
  by (simp add: StorageMaterializedView_ctor_def bind_inner_table_ids_ignores_count
      inner_create_queries_ignores_count create_refresher_ignores_count
      cong: sum.case_cong prod.case_cong)




lemma ctor_attach_ids:
  assumes "bind_inner_table_ids env w table_id query columns comment = Inr view0"
    and "StorageMaterializedView_ctor env w table_id query columns True comment = (Inr view, w', events)"
  shows "target_table_id view = target_table_id view0 \<and> scratch_table_id view = scratch_table_id view0
       \<and> w' = w \<and> events = []"
proof -
  from assms have "create_refresher env table_id query True view0 = Inr view \<and> w' = w \<and> events = []"
    by (auto simp: StorageMaterializedView_ctor_def attach_no_create_queries
        create_inner_tables_nothing split: sum.splits)
  with create_refresher_ids(1,2)[of env table_id query True view0 view] show ?thesis by simp
qed

text \<open>
  The rollback issues one drop for every table recorded, in the order of creation, and
  besides the drops it only logs.
\<close>

lemma drop_created_inner_tables_events:
  "\<exists>log. snd (drop_created_inner_tables env mv created w events) = events @ log
     \<and> filter (\<lambda>ev. case ev of EvDrop _ _ _ _ _ \<Rightarrow> True | _ \<Rightarrow> False) log
         = map (drop_call mv) created
     \<and> filter (\<lambda>ev. case ev of EvDrop _ _ _ _ _ \<Rightarrow> False | EvLogException _ _ \<Rightarrow> False | _ \<Rightarrow> True) log
         = []"
proof (induction created arbitrary: w events)
  case Nil
  then show ?case by simp
next
  case (Cons sid rest)
  obtain r w' where d: "executeDropQuery env Drop sid False True (may_lock_ddl_guard mv sid) w = (r, w')"
    by (cases "executeDropQuery env Drop sid False True (may_lock_ddl_guard mv sid) w")
  show ?case
  proof (cases r)
    case None
    from Cons.IH[of w' "events @ [drop_call mv sid]"] obtain log
      where "snd (drop_created_inner_tables env mv rest w' (events @ [drop_call mv sid]))
               = (events @ [drop_call mv sid]) @ log"
        and "filter (\<lambda>ev. case ev of EvDrop _ _ _ _ _ \<Rightarrow> True | _ \<Rightarrow> False) log
               = map (drop_call mv) rest"
        and "filter (\<lambda>ev. case ev of EvDrop _ _ _ _ _ \<Rightarrow> False | EvLogException _ _ \<Rightarrow> False | _ \<Rightarrow> True) log = []"
      by blast
    with d None show ?thesis
      by (intro exI[of _ "drop_call mv sid # log"]) (simp add: drop_call_def)
  next
    case (Some e)
    from Cons.IH[of w' "events @ [drop_call mv sid, EvLogException e ''Failed to un-create inner table'']"]
    obtain log
      where "snd (drop_created_inner_tables env mv rest w'
                    (events @ [drop_call mv sid, EvLogException e ''Failed to un-create inner table'']))
               = (events @ [drop_call mv sid, EvLogException e ''Failed to un-create inner table'']) @ log"
        and "filter (\<lambda>ev. case ev of EvDrop _ _ _ _ _ \<Rightarrow> True | _ \<Rightarrow> False) log
               = map (drop_call mv) rest"
        and "filter (\<lambda>ev. case ev of EvDrop _ _ _ _ _ \<Rightarrow> False | EvLogException _ _ \<Rightarrow> False | _ \<Rightarrow> True) log = []"
      by blast
    with d Some show ?thesis
      by (intro exI[of _ "drop_call mv sid # EvLogException e ''Failed to un-create inner table'' # log"])
         (simp add: drop_call_def)
  qed
qed

text \<open>When the first create throws, nothing was recorded and nothing is dropped.\<close>

lemma create_inner_tables_target_fails:
  assumes "execute_inner_create env tq (target_table_id view) (w, [], []) = (Inl e, w1, created1, events1)"
  shows "create_inner_tables env mv view tq sq w = (Inl e, w1, events1) \<and> created1 = []"
  using assms execute_inner_create_Inl[OF assms]
  by (auto simp: create_inner_tables_def)

section \<open>The constructor: properties\<close>

text \<open>
  C3 (as amended). A construction that is not an attach, passes the validation, needs a
  scratch table and derives a create query for it throws, before any create is issued:
  \<open>BAD_ARGUMENTS\<close> when the derived create query is a dictionary or a view of any kind;
  \<open>NOT_IMPLEMENTED\<close> when it is the create query of a regular table with a registered engine
  that does not support moving data between tables.
\<close>

theorem scratch_engine_must_move_data:
  assumes "bind_inner_table_ids env w table_id query columns comment = Inr view0"
    and "has_scratch_table view0"
    and "derive_scratch_create_query env w view0 (make_inner_target_create_query view0 query)
           = Inr scratch_create_query"
  shows "(is_dictionary scratch_create_query \<or> is_ordinary_view scratch_create_query
          \<or> is_materialized_view scratch_create_query \<or> is_live_view scratch_create_query
          \<or> is_window_view scratch_create_query \<longrightarrow>
            StorageMaterializedView_ctor env w table_id query columns False comment
              = (Inl BAD_ARGUMENTS, w, []))
       \<and> (\<not> is_dictionary scratch_create_query \<and> \<not> is_ordinary_view scratch_create_query
          \<and> \<not> is_materialized_view scratch_create_query \<and> \<not> is_live_view scratch_create_query
          \<and> \<not> is_window_view scratch_create_query
          \<and> storage scratch_create_query = Some st \<and> engine st = Some engine_name
          \<and> tryGetFeatures env engine_name w = Some features
          \<and> \<not> supports_moving_data_between_tables features \<longrightarrow>
            StorageMaterializedView_ctor env w table_id query columns False comment
              = (Inl NOT_IMPLEMENTED, w, []))"
  using assms
  by (auto simp: StorageMaterializedView_ctor_def inner_create_queries_def
      check_scratch_create_query_def)

text \<open>
  The engine Log does not move data between tables: \<open>NOT_IMPLEMENTED\<close>. A refreshable
  view TO \<open>db.dst\<close>, where the catalog gives the create query of an ordinary view for
  \<open>db.dst\<close>: \<open>BAD_ARGUMENTS\<close>.
\<close>

theorem scratch_engine_must_move_data_witness:
  "tryGetFeatures (fake_env [] []) ''Log'' []
       = Some \<lparr>supports_moving_data_between_tables = False, supports_replication = False\<rparr>
   \<and> StorageMaterializedView_ctor (fake_env [] []) [] view_id (refreshable_query ''Log'')
        ''a UInt64, b String'' False [] = (Inl NOT_IMPLEMENTED, [], [])
   \<and> StorageMaterializedView_ctor
        ((fake_env [] [])\<lparr>getCreateTableQuery :=
           (\<lambda>db tbl w. Inr (new_ASTCreateQuery\<lparr>cq_database := db, cq_table := tbl,
                                                  is_ordinary_view := True\<rparr>))\<rparr>)
        [dst_id] view_id refreshable_to_query ''a UInt64, b String'' False []
       = (Inl BAD_ARGUMENTS, [dst_id], [])"
proof -
  let ?bound = "refreshable_view\<lparr>scratch_table_is_known_to_be_empty := False, refresher := None,
                             refresh_on_start := False\<rparr>"
  let ?sq = "new_ASTCreateQuery
               \<lparr>columns_list := ''a UInt64, b String'',
                storage := Some \<lparr>engine = Some ''Log'', partition_by = None\<rparr>\<rparr>"
  let ?st = "\<lparr>engine = Some ''Log'', partition_by = None\<rparr>"
  let ?features = "\<lparr>supports_moving_data_between_tables = False, supports_replication = False\<rparr>"
  have b: "bind_inner_table_ids (fake_env [] []) [] view_id (refreshable_query ''Log'')
             ''a UInt64, b String'' [] = Inr ?bound"
    by (simp add: ctor_defs fake_defs refreshable_query_def refreshable_view_def)
  have s: "has_scratch_table ?bound" by (simp add: refreshable_view_def)
  have d: "derive_scratch_create_query (fake_env [] []) [] ?bound
             (make_inner_target_create_query ?bound (refreshable_query ''Log'')) = Inr ?sq"
    by (simp add: derive_scratch_create_query_def make_inner_target_create_query_def
        refreshable_view_def refreshable_query_def new_ASTCreateQuery_def)
  have f: "tryGetFeatures (fake_env [] []) ''Log'' [] = Some ?features"
    by (simp add: fake_defs)
  have p: "\<not> is_dictionary ?sq \<and> \<not> is_ordinary_view ?sq \<and> \<not> is_materialized_view ?sq
           \<and> \<not> is_live_view ?sq \<and> \<not> is_window_view ?sq
           \<and> storage ?sq = Some ?st \<and> engine ?st = Some ''Log''
           \<and> tryGetFeatures (fake_env [] []) ''Log'' [] = Some ?features
           \<and> \<not> supports_moving_data_between_tables ?features"
    using f by (simp add: new_ASTCreateQuery_def)
  from scratch_engine_must_move_data [OF b s d, of ?st "''Log''" ?features] p
  have 1: "StorageMaterializedView_ctor (fake_env [] []) [] view_id (refreshable_query ''Log'')
        ''a UInt64, b String'' False [] = (Inl NOT_IMPLEMENTED, [], [])"
    by blast
  let ?env = "(fake_env [] [])\<lparr>getCreateTableQuery :=
           (\<lambda>db tbl w. Inr (new_ASTCreateQuery\<lparr>cq_database := db, cq_table := tbl,
                                                  is_ordinary_view := True\<rparr>))\<rparr>"
  let ?ext = "external_view\<lparr>metadata_refresh :=
                  Some \<lparr>strategy_append = False, strategy_schedule = ''EVERY 1 HOUR''\<rparr>,
                has_scratch_table := True,
                scratch_table_id := mkStorageID ''db'' ''.inner_scratch.v''\<rparr>"
  let ?vq = "new_ASTCreateQuery\<lparr>cq_database := ''db'', cq_table := ''dst'',
                                 is_ordinary_view := True\<rparr>"
  have b2: "bind_inner_table_ids ?env [dst_id] view_id refreshable_to_query
              ''a UInt64, b String'' [] = Inr ?ext"
    by (simp add: ctor_defs fake_defs refreshable_to_query_def external_view_def)
  have s2: "has_scratch_table ?ext" by simp
  have d2: "derive_scratch_create_query ?env [dst_id] ?ext
              (make_inner_target_create_query ?ext refreshable_to_query) = Inr ?vq"
    by (simp add: derive_scratch_create_query_def make_inner_target_create_query_def
        external_view_def fake_defs)
  have v: "is_ordinary_view ?vq" by simp
  from scratch_engine_must_move_data [OF b2 s2 d2] v
  have 2: "StorageMaterializedView_ctor ?env [dst_id] view_id refreshable_to_query
             ''a UInt64, b String'' False [] = (Inl BAD_ARGUMENTS, [dst_id], [])"
    by blast
  from f 1 2 show ?thesis by simp
qed

text \<open>
  As the specification states it, the property fails: with the engine Log, which does
  not move data between tables, the construction throws \<open>NOT_IMPLEMENTED\<close>, not
  \<open>BAD_ARGUMENTS\<close>.
\<close>

theorem scratch_engine_counterexample:
  "needsScratchTable (refreshable_query ''Log'')
   \<and> tryGetFeatures (fake_env [] []) ''Log'' []
       = Some \<lparr>supports_moving_data_between_tables = False, supports_replication = False\<rparr>
   \<and> fst (StorageMaterializedView_ctor (fake_env [] []) [] view_id (refreshable_query ''Log'')
        ''a UInt64, b String'' False []) = Inl NOT_IMPLEMENTED
   \<and> fst (StorageMaterializedView_ctor (fake_env [] []) [] view_id (refreshable_query ''Log'')
        ''a UInt64, b String'' False []) \<noteq> Inl BAD_ARGUMENTS"
  by (simp add: ctor_defs fake_defs refreshable_query_def)

text \<open>
  C5 (as amended). For a construction that passes the checks before it (a SELECT, a
  storage clause when an inner target is needed, a SELECT description, not too many
  dependent views, no self-reference): with a non-empty TO INNER UUID list whose length
  differs from \<^verbatim>\<open>needsInnerTables()\<close> the constructor throws \<open>INCORRECT_QUERY\<close>, and nothing
  was issued; with a non-empty list of that length, the first UUID is bound as the inner
  target's and the last as the scratch table's, an attach returns the object with these
  identifiers, and a creation issues its create queries for them; with an empty list the
  binding succeeds and the whole construction is the same whatever
  \<^verbatim>\<open>needsInnerTables()\<close> is.
\<close>

theorem to_inner_uuid_count:
  assumes "select query = Some query_select"
    and "needsInnerTargetTable query \<longrightarrow> storage query \<noteq> None"
    and "getSelectQueryFromASTForMatView env query_select (refresh_strategy query \<noteq> None) w
           = Inr select_description"
    and "storage_id_empty (select_table_id select_description)
         \<or> max_materialized_views_count_for_table env w = 0
         \<or> length (getDependentViews env (select_table_id select_description) w)
             < max_materialized_views_count_for_table env w"
    and "uuid table_id \<notin> set (to_inner_uuid query)"
    and "database_name (to_table_id query) \<noteq> database_name table_id
         \<or> table_name (to_table_id query) \<noteq> table_name table_id"
  shows "(to_inner_uuid query \<noteq> []
          \<and> length (to_inner_uuid query) \<noteq> needsInnerTables query \<longrightarrow>
           StorageMaterializedView_ctor env w table_id query columns attach comment
             = (Inl INCORRECT_QUERY, w, []))
       \<and> (to_inner_uuid query \<noteq> []
          \<and> length (to_inner_uuid query) = needsInnerTables query \<longrightarrow>
           (\<exists>view0. bind_inner_table_ids env w table_id query columns comment = Inr view0
              \<and> (needsInnerTargetTable query \<longrightarrow>
                   uuid (target_table_id view0) = to_inner_uuid query ! 0)
              \<and> (needsScratchTable query \<longrightarrow>
                   uuid (scratch_table_id view0) = last (to_inner_uuid query))
              \<and> (\<forall>view w' events.
                    StorageMaterializedView_ctor env w table_id query columns True comment
                      = (Inr view, w', events) \<longrightarrow>
                    target_table_id view = target_table_id view0
                    \<and> scratch_table_id view = scratch_table_id view0)
              \<and> (\<forall>view w' events.
                    StorageMaterializedView_ctor env w table_id query columns False comment
                      = (Inr view, w', events) \<longrightarrow>
                    (\<exists>creates. events = map EvCreate creates
                       \<and> map created_id creates
                           = (if needsInnerTargetTable query then [target_table_id view0] else [])
                             @ (if needsScratchTable query then [scratch_table_id view0] else [])))))
       \<and> (to_inner_uuid query = [] \<longrightarrow>
           (\<exists>view0. bind_inner_table_ids env w table_id query columns comment = Inr view0)
           \<and> (\<forall>n. bind_inner_table_ids env w table_id (query\<lparr>needsInnerTables := n\<rparr>)
                      columns comment
                    = bind_inner_table_ids env w table_id query columns comment)
           \<and> (\<forall>n. StorageMaterializedView_ctor env w table_id (query\<lparr>needsInnerTables := n\<rparr>)
                      columns attach comment
                    = StorageMaterializedView_ctor env w table_id query columns attach comment))"
proof (intro conjI impI)
  assume "to_inner_uuid query \<noteq> [] \<and> length (to_inner_uuid query) \<noteq> needsInnerTables query"
  with assms have "bind_inner_table_ids env w table_id query columns comment = Inl INCORRECT_QUERY"
    by (intro bind_inner_table_ids_uuid_mismatch) simp_all
  then show "StorageMaterializedView_ctor env w table_id query columns attach comment
             = (Inl INCORRECT_QUERY, w, [])"
    by (simp add: StorageMaterializedView_ctor_def)
next
  assume a: "to_inner_uuid query \<noteq> [] \<and> length (to_inner_uuid query) = needsInnerTables query"
  then have ne: "to_inner_uuid query \<noteq> []"
    and len: "length (to_inner_uuid query) = needsInnerTables query" by simp_all
  from assms len ne obtain view0
    where b: "bind_inner_table_ids env w table_id query columns comment = Inr view0"
    by (auto simp: bind_inner_table_ids_def Let_def)
  show "\<exists>view0. bind_inner_table_ids env w table_id query columns comment = Inr view0
              \<and> (needsInnerTargetTable query \<longrightarrow>
                   uuid (target_table_id view0) = to_inner_uuid query ! 0)
              \<and> (needsScratchTable query \<longrightarrow>
                   uuid (scratch_table_id view0) = last (to_inner_uuid query))
              \<and> (\<forall>view w' events.
                    StorageMaterializedView_ctor env w table_id query columns True comment
                      = (Inr view, w', events) \<longrightarrow>
                    target_table_id view = target_table_id view0
                    \<and> scratch_table_id view = scratch_table_id view0)
              \<and> (\<forall>view w' events.
                    StorageMaterializedView_ctor env w table_id query columns False comment
                      = (Inr view, w', events) \<longrightarrow>
                    (\<exists>creates. events = map EvCreate creates
                       \<and> map created_id creates
                           = (if needsInnerTargetTable query then [target_table_id view0] else [])
                             @ (if needsScratchTable query then [scratch_table_id view0] else [])))"
  proof (intro exI[of _ view0] conjI allI impI)
    show "bind_inner_table_ids env w table_id query columns comment = Inr view0" by (rule b)
  next
    assume "needsInnerTargetTable query"
    with bind_inner_table_ids_uuids[OF b ne]
    show "uuid (target_table_id view0) = to_inner_uuid query ! 0" by simp
  next
    assume "needsScratchTable query"
    with bind_inner_table_ids_uuids[OF b ne]
    show "uuid (scratch_table_id view0) = last (to_inner_uuid query)" by simp
  next
    fix view w' events
    assume c: "StorageMaterializedView_ctor env w table_id query columns True comment
                 = (Inr view, w', events)"
    from ctor_attach_ids[OF b c] show "target_table_id view = target_table_id view0" by simp
    from ctor_attach_ids[OF b c] show "scratch_table_id view = scratch_table_id view0" by simp
  next
    fix view w' events
    assume c: "StorageMaterializedView_ctor env w table_id query columns False comment
                 = (Inr view, w', events)"
    from ctor_creates_bound_ids[OF b c]
    show "\<exists>creates. events = map EvCreate creates
            \<and> map created_id creates
                = (if needsInnerTargetTable query then [target_table_id view0] else [])
                  @ (if needsScratchTable query then [scratch_table_id view0] else [])" .
  qed
next
  assume e: "to_inner_uuid query = []"
  from bind_inner_table_ids_empty_uuids[OF assms(1,2,3,4,6) e]
  show "\<exists>view0. bind_inner_table_ids env w table_id query columns comment = Inr view0" .
  from e show "\<forall>n. bind_inner_table_ids env w table_id (query\<lparr>needsInnerTables := n\<rparr>)
                      columns comment
                    = bind_inner_table_ids env w table_id query columns comment"
    by (simp add: bind_inner_table_ids_ignores_count)
  from e show "\<forall>n. StorageMaterializedView_ctor env w table_id (query\<lparr>needsInnerTables := n\<rparr>)
                      columns attach comment
                    = StorageMaterializedView_ctor env w table_id query columns attach comment"
    by (simp add: ctor_ignores_count)
qed

text \<open>
  One UUID for a view that needs two inner tables is rejected; with two UUIDs the first
  is the target's and the second the scratch table's; with none the view is built, also
  when the query is made to ask for one inner table only.
\<close>

theorem to_inner_uuid_count_witness:
  "StorageMaterializedView_ctor (fake_env [] []) [] view_id
     ((refreshable_query ''MergeTree'')\<lparr>to_inner_uuid := [''u1'']\<rparr>) ''a UInt64, b String'' False []
     = (Inl INCORRECT_QUERY, [], [])
   \<and> (\<exists>view0. bind_inner_table_ids (fake_env [] []) [] view_id
          ((refreshable_query ''MergeTree'')\<lparr>to_inner_uuid := [''u1'', ''u2'']\<rparr>)
          ''a UInt64, b String'' [] = Inr view0
        \<and> uuid (target_table_id view0) = ''u1'' \<and> uuid (scratch_table_id view0) = ''u2'')
   \<and> to_inner_uuid (refreshable_query ''MergeTree'') = []
   \<and> (\<exists>view0. bind_inner_table_ids (fake_env [] []) [] view_id (refreshable_query ''MergeTree'')
          ''a UInt64, b String'' [] = Inr view0)
   \<and> StorageMaterializedView_ctor (fake_env [] []) [] view_id
       ((refreshable_query ''MergeTree'')\<lparr>needsInnerTables := 1\<rparr>) ''a UInt64, b String'' False []
     = (Inr refreshable_view, two_inner_tables,
        [EvCreate (new_ASTCreateQuery
           \<lparr>cq_database := ''db'', cq_table := ''.inner.v'',
            storage := Some \<lparr>engine = Some ''MergeTree'', partition_by = None\<rparr>,
            columns_list := ''a UInt64, b String''\<rparr>),
         EvCreate (new_ASTCreateQuery
           \<lparr>cq_database := ''db'', cq_table := ''.inner_scratch.v'',
            storage := Some \<lparr>engine = Some ''MergeTree'', partition_by = None\<rparr>,
            columns_list := ''a UInt64, b String''\<rparr>)])"
proof -
  let ?none = "refreshable_query ''MergeTree''"
  let ?one = "(refreshable_query ''MergeTree'')\<lparr>to_inner_uuid := [''u1'']\<rparr>"
  let ?two = "(refreshable_query ''MergeTree'')\<lparr>to_inner_uuid := [''u1'', ''u2'']\<rparr>"
  let ?desc = "\<lparr>select_table_id = mkStorageID ''db'' ''src'',
                select_query = ''SELECT a, b FROM db.src''\<rparr>"
  have 1: "StorageMaterializedView_ctor (fake_env [] []) [] view_id ?one ''a UInt64, b String''
             False [] = (Inl INCORRECT_QUERY, [], [])"
    using to_inner_uuid_count
      [of ?one "''SELECT a, b FROM db.src''" "fake_env [] []" "[]" ?desc view_id
          "''a UInt64, b String''" False "[]"]
    by (simp add: fake_defs refreshable_query_def)
  have 2: "\<exists>view0. bind_inner_table_ids (fake_env [] []) [] view_id ?two
          ''a UInt64, b String'' [] = Inr view0
        \<and> uuid (target_table_id view0) = ''u1'' \<and> uuid (scratch_table_id view0) = ''u2''"
    using to_inner_uuid_count
      [of ?two "''SELECT a, b FROM db.src''" "fake_env [] []" "[]" ?desc view_id
          "''a UInt64, b String''" False "[]"]
    by (simp add: fake_defs refreshable_query_def) blast
  have e: "to_inner_uuid ?none = []"
    by (simp add: refreshable_query_def new_ASTCreateQuery_def)
  have h: "select ?none = Some ''SELECT a, b FROM db.src''"
    "needsInnerTargetTable ?none \<longrightarrow> storage ?none \<noteq> None"
    "getSelectQueryFromASTForMatView (fake_env [] []) ''SELECT a, b FROM db.src''
       (refresh_strategy ?none \<noteq> None) [] = Inr ?desc"
    "storage_id_empty (select_table_id ?desc)
         \<or> max_materialized_views_count_for_table (fake_env [] []) [] = 0
         \<or> length (getDependentViews (fake_env [] []) (select_table_id ?desc) [])
             < max_materialized_views_count_for_table (fake_env [] []) []"
    "uuid view_id \<notin> set (to_inner_uuid ?none)"
    "database_name (to_table_id ?none) \<noteq> database_name view_id
         \<or> table_name (to_table_id ?none) \<noteq> table_name view_id"
    by (simp_all add: fake_defs refreshable_query_def)
  note r = to_inner_uuid_count [OF h, of "''a UInt64, b String''" False "[]"]
  from r e have 3: "\<exists>view0. bind_inner_table_ids (fake_env [] []) [] view_id ?none
          ''a UInt64, b String'' [] = Inr view0" by blast
  from r e have "StorageMaterializedView_ctor (fake_env [] []) [] view_id
       (?none\<lparr>needsInnerTables := 1\<rparr>) ''a UInt64, b String'' False []
       = StorageMaterializedView_ctor (fake_env [] []) [] view_id ?none
           ''a UInt64, b String'' False []" by blast
  then have 4: "StorageMaterializedView_ctor (fake_env [] []) [] view_id
       (?none\<lparr>needsInnerTables := 1\<rparr>) ''a UInt64, b String'' False []
     = (Inr refreshable_view, two_inner_tables,
        [EvCreate (new_ASTCreateQuery
           \<lparr>cq_database := ''db'', cq_table := ''.inner.v'',
            storage := Some \<lparr>engine = Some ''MergeTree'', partition_by = None\<rparr>,
            columns_list := ''a UInt64, b String''\<rparr>),
         EvCreate (new_ASTCreateQuery
           \<lparr>cq_database := ''db'', cq_table := ''.inner_scratch.v'',
            storage := Some \<lparr>engine = Some ''MergeTree'', partition_by = None\<rparr>,
            columns_list := ''a UInt64, b String''\<rparr>)])"
    by (simp only: ctor_refreshable_view)
  from 1 2 e 3 4 show ?thesis by simp
qed

text \<open>
  As the specification states it, the property fails: the query has no TO INNER UUID, the view needs two inner
  tables, and the construction returns the object.
\<close>

theorem to_inner_uuid_counterexample:
  "length (to_inner_uuid (refreshable_query ''MergeTree''))
     \<noteq> needsInnerTables (refreshable_query ''MergeTree'')
   \<and> fst (StorageMaterializedView_ctor (fake_env [] []) [] view_id (refreshable_query ''MergeTree'')
        ''a UInt64, b String'' False []) = Inr refreshable_view"
  by (simp add: ctor_refreshable_view) (simp add: refreshable_query_def new_ASTCreateQuery_def)

text \<open>
  C6. A construction that is not an attach and has a create query for the inner target:
  when the target's create returns and the scratch table's create throws \<open>e\<close>, exactly the
  target was recorded; after the two creates the constructor issues one drop, of the
  target (not synchronous, ignoring the sync setting); when the drop throws, its exception
  is logged; in both cases the constructor throws \<open>e\<close>.
\<close>

theorem construction_rollback:
  assumes "bind_inner_table_ids env w table_id query columns comment = Inr view0"
    and "inner_create_queries env w view0 query False = Inr (Some tq, sq, known_empty)"
    and "create_refresher env table_id query False
           (view0\<lparr>scratch_table_is_known_to_be_empty := known_empty\<rparr>) = Inr view2"
    and "execute_inner_create env (Some tq) (target_table_id view2) (w, [], [])
           = (Inr target, w1, created1, events1)"
    and "execute_inner_create env sq (scratch_table_id view2) (w1, created1, events1)
           = (Inl e, w2, created2, events2)"
  shows "created2 = [target]
       \<and> (\<exists>tq' sq'. events2 = [EvCreate tq', EvCreate sq'])
       \<and> (case executeDropQuery env Drop target False True (may_lock_ddl_guard table_id target) w2 of
            (None, w3) \<Rightarrow>
              StorageMaterializedView_ctor env w table_id query columns False comment
                = (Inl e, w3, events2 @ [EvDrop Drop target False True (may_lock_ddl_guard table_id target)])
          | (Some e', w3) \<Rightarrow>
              StorageMaterializedView_ctor env w table_id query columns False comment
                = (Inl e, w3, events2 @ [EvDrop Drop target False True (may_lock_ddl_guard table_id target),
                                         EvLogException e' ''Failed to un-create inner table'']))"
proof -
  from execute_inner_create_Some_Inr[OF assms(4)]
  have c1: "created1 = [target]" and e1: "\<exists>tq'. events1 = [EvCreate tq']" by auto
  from execute_inner_create_Inl[OF assms(5)]
  have c2: "created2 = created1" and e2: "\<exists>sq'. events2 = events1 @ [EvCreate sq']" by auto
  have ctor: "StorageMaterializedView_ctor env w table_id query columns False comment
          = (case drop_created_inner_tables env table_id [target] w2 events2 of
               (w3, events3) \<Rightarrow> (Inl e, w3, events3))"
    using assms c1 c2 by (simp add: StorageMaterializedView_ctor_def create_inner_tables_def)
  show ?thesis
    using c1 c2 e1 e2 unfolding ctor
    by (auto simp: drop_call_def split: prod.splits option.splits)
qed

text \<open>
  Scenario S3, with a drop that throws as well: the scratch table's create throws code
  57, the drop of the target throws code 1000, which is logged, and the constructor
  throws code 57.
\<close>

theorem construction_rollback_witness:
  "StorageMaterializedView_ctor (fake_env [''.inner_scratch.v''] [''.inner.v'']) [] view_id
     (refreshable_query ''MergeTree'') ''a UInt64, b String'' False []
   = (Inl (OTHER_ERROR 57), [mkStorageID ''db'' ''.inner.v''],
      [EvCreate (new_ASTCreateQuery
         \<lparr>cq_database := ''db'', cq_table := ''.inner.v'',
          storage := Some \<lparr>engine = Some ''MergeTree'', partition_by = None\<rparr>,
          columns_list := ''a UInt64, b String''\<rparr>),
       EvCreate (new_ASTCreateQuery
         \<lparr>cq_database := ''db'', cq_table := ''.inner_scratch.v'',
          storage := Some \<lparr>engine = Some ''MergeTree'', partition_by = None\<rparr>,
          columns_list := ''a UInt64, b String''\<rparr>),
       EvDrop Drop (mkStorageID ''db'' ''.inner.v'') False True False,
       EvLogException (OTHER_ERROR 1000) ''Failed to un-create inner table''])"
proof -
  let ?env = "fake_env [''.inner_scratch.v''] [''.inner.v'']"
  let ?q = "refreshable_query ''MergeTree''"
  let ?bound = "refreshable_view\<lparr>scratch_table_is_known_to_be_empty := False, refresher := None,
                                 refresh_on_start := False\<rparr>"
  let ?cq = "new_ASTCreateQuery
               \<lparr>columns_list := ''a UInt64, b String'',
                storage := Some \<lparr>engine = Some ''MergeTree'', partition_by = None\<rparr>\<rparr>"
  let ?tq = "?cq\<lparr>cq_database := ''db'', cq_table := ''.inner.v''\<rparr>"
  let ?sq = "?cq\<lparr>cq_database := ''db'', cq_table := ''.inner_scratch.v''\<rparr>"
  let ?target = "mkStorageID ''db'' ''.inner.v''"
  have b: "bind_inner_table_ids ?env [] view_id ?q ''a UInt64, b String'' [] = Inr ?bound"
    by (simp add: ctor_defs fake_defs refreshable_query_def refreshable_view_def)
  have i: "inner_create_queries ?env [] ?bound ?q False = Inr (Some ?cq, Some ?cq, True)"
    by (simp add: ctor_defs fake_defs refreshable_query_def refreshable_view_def)
  have r: "create_refresher ?env view_id ?q False
             (?bound\<lparr>scratch_table_is_known_to_be_empty := True\<rparr>) = Inr refreshable_view"
    by (simp add: ctor_defs fake_defs refreshable_query_def refreshable_view_def)
  have t: "execute_inner_create ?env (Some ?cq) (target_table_id refreshable_view) ([], [], [])
             = (Inr ?target, [?target], [?target], [EvCreate ?tq])"
    by (simp add: ctor_defs fake_defs refreshable_view_def)
  have s: "execute_inner_create ?env (Some ?cq) (scratch_table_id refreshable_view)
             ([?target], [?target], [EvCreate ?tq])
             = (Inl (OTHER_ERROR 57), [?target], [?target], [EvCreate ?tq, EvCreate ?sq])"
    by (simp add: ctor_defs fake_defs refreshable_view_def)
  have d: "executeDropQuery ?env Drop ?target False True (may_lock_ddl_guard view_id ?target) [?target]
             = (Some (OTHER_ERROR 1000), [?target])"
    by (simp add: fake_defs)
  have g: "may_lock_ddl_guard view_id ?target = False"
    by (simp add: ctor_defs fake_defs)
  from construction_rollback [OF b i r t s] show ?thesis
    unfolding d by (simp add: g new_ASTCreateQuery_def)
qed



section \<open>The refresh cycle\<close>

text \<open>
  C1. \<^verbatim>\<open>prepareRefresh\<close> returns an INSERT query exactly when its collaborators do not
  throw, and then: when there is a scratch table not known to be empty, the scratch table
  was resolved, locked exclusively, truncated and unlocked before the sample block of the
  SELECT was computed (else nothing was done before); the query's SELECT is the view's;
  it targets the scratch table when there is one, else the target table; its column list
  is the names of the sample block's columns, in order; and the scratch-empty flag is
  false afterwards.
\<close>

theorem prepareRefresh_returns_iff:
  "prepareRefresh env analyzer view w = (Inr q, view', w', events) \<longleftrightarrow>
     (\<exists>header.
        (if analyzer then analyzer_getSampleBlock env (select_query (metadata_select view)) w'
         else interpreter_getSampleBlock env (select_query (metadata_select view)) w') = Inr header
        \<and> q = \<lparr>insert_select = select_query (metadata_select view),
                insert_table = table_name (if has_scratch_table view then scratch_table_id view
                                           else target_table_id view),
                insert_database = database_name (if has_scratch_table view then scratch_table_id view
                                                 else target_table_id view),
                insert_table_id = (if has_scratch_table view then scratch_table_id view
                                   else target_table_id view),
                insert_columns = map col_name header\<rparr>)
     \<and> view' = view\<lparr>scratch_table_is_known_to_be_empty := False\<rparr>
     \<and> (if has_scratch_table view \<and> \<not> scratch_table_is_known_to_be_empty view
        then \<exists>scratch w1 w2.
               getTable env (scratch_table_id view) w = Inr scratch
               \<and> lockExclusively env scratch w = (None, w1)
               \<and> storage_truncate env scratch w1 = (None, w2)
               \<and> w' = unlock env scratch w2
               \<and> events = [EvLockExclusively scratch, EvTruncate scratch, EvUnlock scratch,
                            EvGetSampleBlock analyzer (select_query (metadata_select view))]
        else w' = w
             \<and> events = [EvGetSampleBlock analyzer (select_query (metadata_select view))])"
  by (auto simp: prepareRefresh_def truncate_scratch_def getScratchTable_def getNames_def Let_def
      split: sum.splits option.splits prod.splits if_splits)

text \<open>
  Scenario S4: the scratch table is not known to be empty, so the truncate under the lock
  comes first; the INSERT goes to \<open>db..inner_scratch.v\<close> with the columns \<open>a, b\<close>.
\<close>

theorem prepareRefresh_returns_iff_witness:
  "prepareRefresh (fake_env [] []) True
     (refreshable_view\<lparr>scratch_table_is_known_to_be_empty := False\<rparr>) two_inner_tables
   = (Inr \<lparr>insert_select = ''SELECT a, b FROM db.src'',
           insert_table = ''.inner_scratch.v'',
           insert_database = ''db'',
           insert_table_id = mkStorageID ''db'' ''.inner_scratch.v'',
           insert_columns = [''a'', ''b'']\<rparr>,
      refreshable_view\<lparr>scratch_table_is_known_to_be_empty := False\<rparr>,
      two_inner_tables,
      [EvLockExclusively (mkStorageID ''db'' ''.inner_scratch.v''),
       EvTruncate (mkStorageID ''db'' ''.inner_scratch.v''),
       EvUnlock (mkStorageID ''db'' ''.inner_scratch.v''),
       EvGetSampleBlock True ''SELECT a, b FROM db.src''])"
  unfolding prepareRefresh_returns_iff
  by (simp add: fake_defs refreshable_view_def two_inner_tables_def)

text \<open>
  C2. \<^verbatim>\<open>transferRefreshedData\<close> does nothing for a view without a scratch table. For a view
  with one, it returns normally exactly when both tables resolve and the target's
  \<^verbatim>\<open>transferAllDataFrom\<close> does not throw; the call it issues, whenever both tables
  resolve, is the transfer from the scratch table with \<^verbatim>\<open>remove_from_source\<close> and
  \<^verbatim>\<open>replace_at_destination\<close> true; after a normal return the scratch-empty flag is true.
  \<^verbatim>\<open>prepareRefresh\<close> returns whenever its collaborators do not throw (with or without the
  truncate of the scratch table), and whenever it returns the object is the one it was
  given with the scratch-empty flag false.
\<close>

theorem transferRefreshedData_spec:
  "(\<not> has_scratch_table view \<longrightarrow> transferRefreshedData env view w = (Inr (), view, w, []))
   \<and> (has_scratch_table view \<longrightarrow>
        (transferRefreshedData env view w = (Inr (), view', w', events) \<longleftrightarrow>
           (\<exists>target scratch.
              getTable env (target_table_id view) w = Inr target
              \<and> getTable env (scratch_table_id view) w = Inr scratch
              \<and> transferAllDataFrom env target scratch True True w = (None, w')
              \<and> events = [EvTransferAllDataFrom target scratch True True]
              \<and> view' = view\<lparr>scratch_table_is_known_to_be_empty := True\<rparr>)))
   \<and> (has_scratch_table view
        \<and> getTable env (target_table_id view) w = Inr target
        \<and> getTable env (scratch_table_id view) w = Inr scratch \<longrightarrow>
        snd (snd (snd (transferRefreshedData env view w)))
          = [EvTransferAllDataFrom target scratch True True])
   \<and> (prepareRefresh env analyzer view w = (Inr q, view'', w'', events'') \<longrightarrow>
        \<not> scratch_table_is_known_to_be_empty view''
        \<and> view'' = view\<lparr>scratch_table_is_known_to_be_empty := False\<rparr>)
   \<and> (\<not> (has_scratch_table view \<and> \<not> scratch_table_is_known_to_be_empty view)
        \<and> (if analyzer then analyzer_getSampleBlock env (select_query (metadata_select view)) w
            else interpreter_getSampleBlock env (select_query (metadata_select view)) w)
           = Inr header \<longrightarrow>
        (\<exists>insert_query. fst (prepareRefresh env analyzer view w) = Inr insert_query)
        \<and> fst (snd (prepareRefresh env analyzer view w))
            = view\<lparr>scratch_table_is_known_to_be_empty := False\<rparr>)
   \<and> (has_scratch_table view \<and> \<not> scratch_table_is_known_to_be_empty view
        \<and> getTable env (scratch_table_id view) w = Inr scratch_table
        \<and> lockExclusively env scratch_table w = (None, w1)
        \<and> storage_truncate env scratch_table w1 = (None, w2)
        \<and> (if analyzer
            then analyzer_getSampleBlock env (select_query (metadata_select view))
                   (unlock env scratch_table w2)
            else interpreter_getSampleBlock env (select_query (metadata_select view))
                   (unlock env scratch_table w2))
           = Inr header \<longrightarrow>
        (\<exists>insert_query. fst (prepareRefresh env analyzer view w) = Inr insert_query)
        \<and> fst (snd (prepareRefresh env analyzer view w))
            = view\<lparr>scratch_table_is_known_to_be_empty := False\<rparr>)"
proof (intro conjI impI)
  assume "\<not> has_scratch_table view"
  then show "transferRefreshedData env view w = (Inr (), view, w, [])"
    by (simp add: transferRefreshedData_def)
next
  assume "has_scratch_table view"
  then show "transferRefreshedData env view w = (Inr (), view', w', events) \<longleftrightarrow>
           (\<exists>target scratch.
              getTable env (target_table_id view) w = Inr target
              \<and> getTable env (scratch_table_id view) w = Inr scratch
              \<and> transferAllDataFrom env target scratch True True w = (None, w')
              \<and> events = [EvTransferAllDataFrom target scratch True True]
              \<and> view' = view\<lparr>scratch_table_is_known_to_be_empty := True\<rparr>)"
    by (auto simp: transferRefreshedData_def getTargetTable_def getScratchTable_def
        split: sum.splits option.splits prod.splits)
next
  assume "has_scratch_table view
        \<and> getTable env (target_table_id view) w = Inr target
        \<and> getTable env (scratch_table_id view) w = Inr scratch"
  then show "snd (snd (snd (transferRefreshedData env view w)))
          = [EvTransferAllDataFrom target scratch True True]"
    by (auto simp: transferRefreshedData_def getTargetTable_def getScratchTable_def
        split: sum.splits option.splits prod.splits)
next
  assume p: "prepareRefresh env analyzer view w = (Inr q, view'', w'', events'')"
  then show "view'' = view\<lparr>scratch_table_is_known_to_be_empty := False\<rparr>"
    by (auto simp: prepareRefresh_def Let_def split: sum.splits option.splits prod.splits if_splits)
  then show "\<not> scratch_table_is_known_to_be_empty view''" by simp
next
  assume a: "\<not> (has_scratch_table view \<and> \<not> scratch_table_is_known_to_be_empty view)
        \<and> (if analyzer then analyzer_getSampleBlock env (select_query (metadata_select view)) w
            else interpreter_getSampleBlock env (select_query (metadata_select view)) w)
           = Inr header"
  then show "\<exists>insert_query. fst (prepareRefresh env analyzer view w) = Inr insert_query"
    by (auto simp: prepareRefresh_def Let_def split: if_splits)
  from a show "fst (snd (prepareRefresh env analyzer view w))
            = view\<lparr>scratch_table_is_known_to_be_empty := False\<rparr>"
    by (auto simp: prepareRefresh_def Let_def split: if_splits)
next
  assume a: "has_scratch_table view \<and> \<not> scratch_table_is_known_to_be_empty view
        \<and> getTable env (scratch_table_id view) w = Inr scratch_table
        \<and> lockExclusively env scratch_table w = (None, w1)
        \<and> storage_truncate env scratch_table w1 = (None, w2)
        \<and> (if analyzer
            then analyzer_getSampleBlock env (select_query (metadata_select view))
                   (unlock env scratch_table w2)
            else interpreter_getSampleBlock env (select_query (metadata_select view))
                   (unlock env scratch_table w2))
           = Inr header"
  then show "\<exists>insert_query. fst (prepareRefresh env analyzer view w) = Inr insert_query"
    by (auto simp: prepareRefresh_def truncate_scratch_def getScratchTable_def Let_def
        split: if_splits)
  from a show "fst (snd (prepareRefresh env analyzer view w))
            = view\<lparr>scratch_table_is_known_to_be_empty := False\<rparr>"
    by (auto simp: prepareRefresh_def truncate_scratch_def getScratchTable_def Let_def
        split: if_splits)
qed

text \<open>
  A cycle on the view with two inner tables: the flag is true after construction,
  \<^verbatim>\<open>prepareRefresh\<close> clears it (and leaves it clear when run again, after a truncate), the
  transfer sets it again.
\<close>

theorem transferRefreshedData_spec_witness:
  "\<not> has_scratch_table external_view
   \<and> transferRefreshedData (fake_env [] []) external_view [dst_id] = (Inr (), external_view, [dst_id], [])
   \<and> scratch_table_is_known_to_be_empty refreshable_view
   \<and> fst (snd (prepareRefresh (fake_env [] []) True refreshable_view two_inner_tables))
       = refreshable_view\<lparr>scratch_table_is_known_to_be_empty := False\<rparr>
   \<and> fst (snd (prepareRefresh (fake_env [] []) True
         (refreshable_view\<lparr>scratch_table_is_known_to_be_empty := False\<rparr>) two_inner_tables))
       = refreshable_view\<lparr>scratch_table_is_known_to_be_empty := False\<rparr>
   \<and> has_scratch_table (refreshable_view\<lparr>scratch_table_is_known_to_be_empty := False\<rparr>)
   \<and> transferRefreshedData (fake_env [] [])
        (refreshable_view\<lparr>scratch_table_is_known_to_be_empty := False\<rparr>) two_inner_tables
      = (Inr (), refreshable_view, two_inner_tables,
         [EvTransferAllDataFrom (mkStorageID ''db'' ''.inner.v'')
            (mkStorageID ''db'' ''.inner_scratch.v'') True True])"
proof -
  let ?loading = "refreshable_view\<lparr>scratch_table_is_known_to_be_empty := False\<rparr>"
  let ?scratch = "mkStorageID ''db'' ''.inner_scratch.v''"
  have a: "\<not> has_scratch_table external_view" by (simp add: external_view_def)
  have b: "has_scratch_table ?loading" by (simp add: refreshable_view_def)
  have c: "?loading\<lparr>scratch_table_is_known_to_be_empty := True\<rparr> = refreshable_view"
    by (simp add: refreshable_view_def)
  have e: "scratch_table_is_known_to_be_empty refreshable_view" by (simp add: refreshable_view_def)
  from transferRefreshedData_spec [where view = external_view and env = "fake_env [] []"
         and w = "[dst_id]"] a
  have 1: "transferRefreshedData (fake_env [] []) external_view [dst_id]
             = (Inr (), external_view, [dst_id], [])" by blast
  from transferRefreshedData_spec
         [where view = ?loading and env = "fake_env [] []" and w = two_inner_tables
            and view' = refreshable_view and w' = two_inner_tables
            and events = "[EvTransferAllDataFrom (mkStorageID ''db'' ''.inner.v'')
                 (mkStorageID ''db'' ''.inner_scratch.v'') True True]"] b
  have 2: "transferRefreshedData (fake_env [] []) ?loading two_inner_tables
      = (Inr (), refreshable_view, two_inner_tables,
         [EvTransferAllDataFrom (mkStorageID ''db'' ''.inner.v'')
            (mkStorageID ''db'' ''.inner_scratch.v'') True True])"
    by (simp add: c) (simp add: fake_defs refreshable_view_def two_inner_tables_def)
  have s: "\<not> (has_scratch_table refreshable_view
               \<and> \<not> scratch_table_is_known_to_be_empty refreshable_view)
        \<and> (if True
            then analyzer_getSampleBlock (fake_env [] [])
                   (select_query (metadata_select refreshable_view)) two_inner_tables
            else interpreter_getSampleBlock (fake_env [] [])
                   (select_query (metadata_select refreshable_view)) two_inner_tables)
           = Inr fake_sample_block"
    by (simp add: refreshable_view_def fake_env_def)
  from transferRefreshedData_spec [where view = refreshable_view and env = "fake_env [] []"
         and w = two_inner_tables and analyzer = True and header = fake_sample_block] s
  have 3: "fst (snd (prepareRefresh (fake_env [] []) True refreshable_view two_inner_tables))
       = ?loading" by blast
  have t: "has_scratch_table ?loading \<and> \<not> scratch_table_is_known_to_be_empty ?loading
        \<and> getTable (fake_env [] []) (scratch_table_id ?loading) two_inner_tables = Inr ?scratch
        \<and> lockExclusively (fake_env [] []) ?scratch two_inner_tables = (None, two_inner_tables)
        \<and> storage_truncate (fake_env [] []) ?scratch two_inner_tables = (None, two_inner_tables)
        \<and> (if True
            then analyzer_getSampleBlock (fake_env [] [])
                   (select_query (metadata_select ?loading))
                   (unlock (fake_env [] []) ?scratch two_inner_tables)
            else interpreter_getSampleBlock (fake_env [] [])
                   (select_query (metadata_select ?loading))
                   (unlock (fake_env [] []) ?scratch two_inner_tables))
           = Inr fake_sample_block"
    by (simp add: refreshable_view_def fake_defs two_inner_tables_def)
  from transferRefreshedData_spec [where view = ?loading and env = "fake_env [] []"
         and w = two_inner_tables and analyzer = True and header = fake_sample_block
         and scratch_table = ?scratch and ?w1.0 = two_inner_tables and ?w2.0 = two_inner_tables] t
  have 4: "fst (snd (prepareRefresh (fake_env [] []) True ?loading two_inner_tables))
       = ?loading\<lparr>scratch_table_is_known_to_be_empty := False\<rparr>" by blast
  from a b e 1 2 3 4 show ?thesis by simp
qed

section \<open>truncate\<close>

text \<open>
  C4 (as amended). With an inner target, \<^verbatim>\<open>truncate\<close> issues one synchronous TRUNCATE of
  the target table and throws what that query throws; with an external target it does
  nothing and returns normally.
\<close>

theorem truncate_spec:
  "(has_inner_target_table view \<longrightarrow>
      snd (snd (truncate env view w)) = [EvDrop Truncate (target_table_id view) True False False]
      \<and> fst (truncate env view w)
          = (case fst (executeDropQuery env Truncate (target_table_id view) True False False w) of
               None \<Rightarrow> Inr () | Some e \<Rightarrow> Inl e)
      \<and> fst (snd (truncate env view w))
          = snd (executeDropQuery env Truncate (target_table_id view) True False False w))
   \<and> (\<not> has_inner_target_table view \<longrightarrow> truncate env view w = (Inr (), w, []))"
  by (auto simp: truncate_def split: option.splits prod.splits)

theorem truncate_spec_witness:
  "has_inner_target_table refreshable_view
   \<and> truncate (fake_env [] []) refreshable_view two_inner_tables
      = (Inr (), two_inner_tables, [EvDrop Truncate (mkStorageID ''db'' ''.inner.v'') True False False])"
proof -
  have a: "has_inner_target_table refreshable_view" by (simp add: refreshable_view_def)
  from truncate_spec [of refreshable_view "fake_env [] []" two_inner_tables] a
  have "snd (snd (truncate (fake_env [] []) refreshable_view two_inner_tables))
          = [EvDrop Truncate (target_table_id refreshable_view) True False False]
      \<and> fst (truncate (fake_env [] []) refreshable_view two_inner_tables)
          = (case fst (executeDropQuery (fake_env [] []) Truncate (target_table_id refreshable_view) True False False two_inner_tables) of
               None \<Rightarrow> Inr () | Some e \<Rightarrow> Inl e)
      \<and> fst (snd (truncate (fake_env [] []) refreshable_view two_inner_tables))
          = snd (executeDropQuery (fake_env [] []) Truncate (target_table_id refreshable_view) True False False two_inner_tables)"
    by blast
  then have "truncate (fake_env [] []) refreshable_view two_inner_tables
      = (Inr (), two_inner_tables, [EvDrop Truncate (mkStorageID ''db'' ''.inner.v'') True False False])"
    by (cases "truncate (fake_env [] []) refreshable_view two_inner_tables")
       (simp add: fake_defs refreshable_view_def two_inner_tables_def)
  with a show ?thesis by simp
qed

text \<open>
  As the specification states it, the property fails: on the view with the TO table \<open>db.dst\<close> truncate returns
  normally, with no call issued; it does not throw \<open>NOT_IMPLEMENTED\<close>.
\<close>

theorem truncate_counterexample:
  "\<not> has_inner_target_table external_view
   \<and> truncate (fake_env [] []) external_view [dst_id] = (Inr (), [dst_id], [])
   \<and> fst (truncate (fake_env [] []) external_view [dst_id]) \<noteq> Inl NOT_IMPLEMENTED"
  by (simp add: truncate_def external_view_def)

section \<open>checkAlterIsPossible\<close>

text \<open>
  C7. \<^verbatim>\<open>checkAlterIsPossible\<close> returns normally exactly when every command is a comment
  alter, a MODIFY QUERY, or a MODIFY REFRESH on a view that has a refresher and whose
  new strategy has APPEND exactly when the view has no scratch table; in every other
  case it throws \<open>NOT_IMPLEMENTED\<close>.
\<close>

theorem checkAlterIsPossible_accepts_exactly:
  "checkAlterIsPossible view commands =
     (if list_all (\<lambda>c. isCommentAlter c \<or> command_type c = MODIFY_QUERY
                      \<or> (command_type c = MODIFY_REFRESH \<and> refresher view \<noteq> None
                          \<and> strategy_append (refresh c) = (\<not> has_scratch_table view))) commands
      then Inr () else Inl NOT_IMPLEMENTED)"
  by (induction commands) auto

text \<open>
  Scenario S6 (ADD COLUMN is rejected); MODIFY REFRESH is rejected on a view without
  refresher and when it adds APPEND; a comment, a MODIFY QUERY and a MODIFY REFRESH
  that keeps APPEND off are accepted together.
\<close>

theorem checkAlterIsPossible_accepts_exactly_witness:
  "checkAlterIsPossible external_view
     [\<lparr>command_type = ADD_COLUMN, isCommentAlter = False,
       refresh = \<lparr>strategy_append = False, strategy_schedule = []\<rparr>\<rparr>] = Inl NOT_IMPLEMENTED
   \<and> checkAlterIsPossible external_view
     [\<lparr>command_type = MODIFY_REFRESH, isCommentAlter = False,
       refresh = \<lparr>strategy_append = True, strategy_schedule = ''EVERY 1 DAY''\<rparr>\<rparr>] = Inl NOT_IMPLEMENTED
   \<and> checkAlterIsPossible refreshable_view
     [\<lparr>command_type = MODIFY_REFRESH, isCommentAlter = False,
       refresh = \<lparr>strategy_append = True, strategy_schedule = ''EVERY 1 DAY''\<rparr>\<rparr>] = Inl NOT_IMPLEMENTED
   \<and> checkAlterIsPossible refreshable_view
     [\<lparr>command_type = COMMENT_TABLE, isCommentAlter = True,
       refresh = \<lparr>strategy_append = False, strategy_schedule = []\<rparr>\<rparr>,
      \<lparr>command_type = MODIFY_QUERY, isCommentAlter = False,
       refresh = \<lparr>strategy_append = False, strategy_schedule = []\<rparr>\<rparr>,
      \<lparr>command_type = MODIFY_REFRESH, isCommentAlter = False,
       refresh = \<lparr>strategy_append = False, strategy_schedule = ''EVERY 1 DAY''\<rparr>\<rparr>] = Inr ()"
  unfolding checkAlterIsPossible_accepts_exactly
  by (simp add: external_view_def refreshable_view_def)

section \<open>totalRows, totalBytes, totalBytesUncompressed\<close>

text \<open>
  C8 (as amended). The three totals are the target table's when the target is an inner
  table and the catalog has it; they are empty when the target is an external table or
  the catalog does not have it.
\<close>

theorem totals_delegate_to_inner_target:
  "(has_inner_target_table view \<and> tryGetTable env (target_table_id view) w = Some table \<longrightarrow>
      totalRows env view w = storage_totalRows env table w
      \<and> totalBytes env view w = storage_totalBytes env table w
      \<and> totalBytesUncompressed env view w = storage_totalBytesUncompressed env table w)
   \<and> (\<not> has_inner_target_table view \<or> tryGetTable env (target_table_id view) w = None \<longrightarrow>
      totalRows env view w = None
      \<and> totalBytes env view w = None
      \<and> totalBytesUncompressed env view w = None)"
  by (auto simp: totalRows_def totalBytes_def totalBytesUncompressed_def tryGetTargetTable_def)

theorem totals_delegate_to_inner_target_witness:
  "has_inner_target_table refreshable_view
   \<and> tryGetTable (fake_env [] []) (target_table_id refreshable_view) two_inner_tables
       = Some (mkStorageID ''db'' ''.inner.v'')
   \<and> totalRows (fake_env [] []) refreshable_view two_inner_tables = Some 5
   \<and> totalBytes (fake_env [] []) refreshable_view two_inner_tables = Some 40
   \<and> totalBytesUncompressed (fake_env [] []) refreshable_view two_inner_tables = Some 80
   \<and> totalRows (fake_env [] []) refreshable_view [] = None"
proof -
  have a: "has_inner_target_table refreshable_view" by (simp add: refreshable_view_def)
  have b: "tryGetTable (fake_env [] []) (target_table_id refreshable_view) two_inner_tables
       = Some (mkStorageID ''db'' ''.inner.v'')"
    by (simp add: fake_defs refreshable_view_def two_inner_tables_def)
  have c: "tryGetTable (fake_env [] []) (target_table_id refreshable_view) [] = None"
    by (simp add: fake_defs)
  from totals_delegate_to_inner_target
         [of refreshable_view "fake_env [] []" two_inner_tables "mkStorageID ''db'' ''.inner.v''"] a b
  have 1: "totalRows (fake_env [] []) refreshable_view two_inner_tables = Some 5
   \<and> totalBytes (fake_env [] []) refreshable_view two_inner_tables = Some 40
   \<and> totalBytesUncompressed (fake_env [] []) refreshable_view two_inner_tables = Some 80"
    by (simp add: fake_env_def)
  from totals_delegate_to_inner_target [of refreshable_view "fake_env [] []" "[]"] c
  have 2: "totalRows (fake_env [] []) refreshable_view [] = None" by blast
  from a b 1 2 show ?thesis by simp
qed

text \<open>
  As the specification states it, the property fails: the external target \<open>db.dst\<close> is in the catalog and has 5
  rows, and \<^verbatim>\<open>totalRows\<close> of the view is empty.
\<close>

theorem totals_counterexample:
  "tryGetTable (fake_env [] []) (target_table_id external_view) [dst_id] = Some dst_id
   \<and> storage_totalRows (fake_env [] []) dst_id [dst_id] = Some 5
   \<and> totalRows (fake_env [] []) external_view [dst_id] = None"
  by (simp add: totalRows_def fake_defs external_view_def)

end
